(* ===== verification/Prelude.thy ===== *)
theory Prelude
  imports Complex_Main
begin

text \<open>
  Shared vocabulary of the development: the Python exceptions the player can raise, the
  Python builtins its code calls on strings and integers (\<open>str(int)\<close>, the format
  spec \<open>02d\<close>, \<open>str.split(sep, 1)\<close>, \<open>str.endswith\<close>, \<open>os.path.join\<close>,
  \<open>os.path.basename\<close>, \<open>int(float)\<close>), a reader of decimal digit strings used for the
  round-trip lemmas, and the generic lemmas on these that the component theories use.
  Python strings are modelled as \<open>string\<close> (lists of \<open>char\<close>); every operation used
  here only compares characters with ASCII ones, so code points and bytes behave alike.
\<close>

named_theorems py_defs "definitions of the modelled Python builtins"
named_theorems py_facts "simplification facts about the modelled Python builtins"

type_synonym path = string

datatype py_exc =
    AttributeError   \<comment> \<open>attribute read on \<open>None\<close> (eyed3 found no file, tag or stream info)\<close>
  | UnboundLocalError   \<comment> \<open>a local variable read before any assignment\<close>
  | ValueError   \<comment> \<open>tuple unpacking of the wrong length\<close>
  | PygameError   \<comment> \<open>\<open>pygame.error\<close> from the mixer\<close>
  | OSError   \<comment> \<open>a system call on a path failed (\<open>FileNotFoundError\<close>, \<open>PermissionError\<close>, ...)\<close>
  | OverflowError   \<comment> \<open>PyQt could not convert a Python \<open>int\<close> to a C \<open>int\<close>\<close>

subsection \<open>Printing integers: \<open>str(n)\<close> and \<open>format(n, '0wd')\<close>\<close>

definition digit_char :: "nat \<Rightarrow> char" where
  [py_defs]: "digit_char d = ''0123456789'' ! d"

fun nat_digits :: "nat \<Rightarrow> string" where
  "nat_digits n =
     (if n < 10 then [digit_char n] else nat_digits (n div 10) @ [digit_char (n mod 10)])"

declare nat_digits.simps [simp del]

text \<open>\<open>str(i)\<close> for a Python \<open>int\<close>: a minus sign, then the decimal digits.\<close>

definition py_str_int :: "int \<Rightarrow> string" where
  [py_defs]: "py_str_int i =
     (if i < 0 then CHR ''-'' # nat_digits (nat (- i)) else nat_digits (nat i))"

text \<open>
  \<open>format(i, '0wd')\<close>: the sign, then zeros up to the field width \<open>w\<close>, then the
  digits; a number longer than the field is not cut.
\<close>

definition py_format_0d :: "nat \<Rightarrow> int \<Rightarrow> string" where
  [py_defs]: "py_format_0d w i =
     (let sign = (if i < 0 then ''-'' else '''');
          ds = nat_digits (nat \<bar>i\<bar>)
      in sign @ replicate (w - length sign - length ds) CHR ''0'' @ ds)"

subsection \<open>String operations\<close>

text \<open>\<open>s.endswith(suffix)\<close>.\<close>

definition py_endswith :: "string \<Rightarrow> string \<Rightarrow> bool" where
  [py_defs]: "py_endswith s suf \<longleftrightarrow>
     length suf \<le> length s \<and> drop (length s - length suf) s = suf"

text \<open>\<open>s.split(sep, 1)\<close> for a one-character separator: one piece when \<open>sep\<close> does not
  occur, otherwise the text before its first occurrence and everything after it.\<close>

definition py_split_once :: "char \<Rightarrow> string \<Rightarrow> string list" where
  [py_defs]: "py_split_once c s =
     (if c \<in> set s then [takeWhile (\<lambda>x. x \<noteq> c) s, tl (dropWhile (\<lambda>x. x \<noteq> c) s)]
      else [s])"

text \<open>\<open>posixpath.basename(p)\<close>: the text after the last slash.\<close>

definition py_basename :: "path \<Rightarrow> string" where
  [py_defs]: "py_basename p = rev (takeWhile (\<lambda>x. x \<noteq> CHR ''/'') (rev p))"

text \<open>\<open>posixpath.join(a, b)\<close> for two components.\<close>

definition py_join :: "path \<Rightarrow> string \<Rightarrow> path" where
  [py_defs]: "py_join a b =
     (if b \<noteq> [] \<and> hd b = CHR ''/'' then b
      else if a = [] \<or> last a = CHR ''/'' then a @ b
      else a @ ''/'' @ b)"

text \<open>\<open>int(x)\<close> for a float: truncation towards zero.\<close>

definition py_int_of_float :: "real \<Rightarrow> int" where
  [py_defs]: "py_int_of_float x = (if 0 \<le> x then \<lfloor>x\<rfloor> else \<lceil>x\<rceil>)"

subsection \<open>Reading digit strings back\<close>

definition is_digit :: "char \<Rightarrow> bool" where
  "is_digit c \<longleftrightarrow> (48::nat) \<le> of_char c \<and> (of_char c :: nat) \<le> 57"

fun parse_digits :: "nat \<Rightarrow> string \<Rightarrow> nat option" where
  "parse_digits acc [] = Some acc"
| "parse_digits acc (c # cs) =
     (if is_digit c then parse_digits (10 * acc + (of_char c - 48 :: nat)) cs else None)"

definition parse_nat :: "string \<Rightarrow> nat option" where
  "parse_nat s = (if s = [] then None else parse_digits 0 s)"

subsection \<open>Lemmas\<close>

lemma digit_char_code [py_facts]:
  "d < 10 \<Longrightarrow> of_char (digit_char d) = 48 + d"
  by (auto simp: digit_char_def less_Suc_eq numeral_eq_Suc)

lemma is_digit_digit_char [py_facts]: "d < 10 \<Longrightarrow> is_digit (digit_char d)"
  by (simp add: is_digit_def digit_char_code)

lemma nat_digits_nonempty [py_facts]: "nat_digits n \<noteq> []"
  by (subst nat_digits.simps) simp

lemma nat_digits_all_digits: "\<forall>c \<in> set (nat_digits n). is_digit c"
proof (induction n rule: nat_digits.induct)
  case (1 n)
  then show ?case
    by (subst nat_digits.simps) (auto simp: is_digit_digit_char)
qed

lemma nat_digits_no_sep [py_facts]:
  "\<not> is_digit c \<Longrightarrow> c \<notin> set (nat_digits n)"
  using nat_digits_all_digits by blast

lemma parse_digits_append:
  "parse_digits acc (xs @ ys) =
     (case parse_digits acc xs of None \<Rightarrow> None | Some a \<Rightarrow> parse_digits a ys)"
  by (induction acc xs rule: parse_digits.induct) auto

lemma parse_digits_zeros:
  "parse_digits acc (replicate k CHR ''0'' @ ys) = parse_digits (10 ^ k * acc) ys"
  by (induction k arbitrary: acc) (simp_all add: is_digit_def ac_simps)

lemma parse_digits_nat_digits: "parse_digits 0 (nat_digits n) = Some n"
proof (induction n rule: nat_digits.induct)
  case (1 n)
  show ?case
  proof (cases "n < 10")
    case True
    then show ?thesis
      by (subst nat_digits.simps) (simp add: is_digit_digit_char digit_char_code)
  next
    case False
    then have "parse_digits 0 (nat_digits (n div 10)) = Some (n div 10)"
      using "1.IH" by simp
    with False show ?thesis
      by (subst nat_digits.simps)
        (simp add: parse_digits_append is_digit_digit_char digit_char_code)
  qed
qed

text \<open>Printing a natural and reading it back gives the number: \<open>str\<close> is injective.\<close>

lemma parse_nat_nat_digits [py_facts]: "parse_nat (nat_digits n) = Some n"
  by (simp add: parse_nat_def nat_digits_nonempty parse_digits_nat_digits)

lemma parse_nat_padded:
  "parse_nat (replicate k CHR ''0'' @ nat_digits n) = Some n"
  by (simp add: parse_nat_def nat_digits_nonempty parse_digits_zeros parse_digits_nat_digits)

lemma py_endswith_iff [py_facts]: "py_endswith s suf \<longleftrightarrow> (\<exists>p. s = p @ suf)"
proof
  assume "py_endswith s suf"
  then have "s = take (length s - length suf) s @ suf"
    unfolding py_endswith_def by (metis append_take_drop_id)
  then show "\<exists>p. s = p @ suf" ..
next
  assume "\<exists>p. s = p @ suf"
  then show "py_endswith s suf" by (auto simp: py_endswith_def)
qed

lemma py_split_once_found [py_facts]:
  assumes "c \<in> set s"
  shows "py_split_once c s = [takeWhile (\<lambda>x. x \<noteq> c) s, tl (dropWhile (\<lambda>x. x \<noteq> c) s)]"
  using assms by (simp add: py_split_once_def)

lemma takeWhile_dropWhile_sep:
  assumes "c \<in> set s"
  shows "s = takeWhile (\<lambda>x. x \<noteq> c) s @ c # tl (dropWhile (\<lambda>x. x \<noteq> c) s)"
proof -
  from assms have "dropWhile (\<lambda>x. x \<noteq> c) s \<noteq> []" by (simp add: dropWhile_eq_Nil_conv)
  moreover from assms have "hd (dropWhile (\<lambda>x. x \<noteq> c) s) = c"
    by (metis (mono_tags) hd_dropWhile dropWhile_eq_Nil_conv)
  ultimately have "dropWhile (\<lambda>x. x \<noteq> c) s = c # tl (dropWhile (\<lambda>x. x \<noteq> c) s)"
    by (metis list.exhaust_sel)
  then show ?thesis by (metis takeWhile_dropWhile_id)
qed

lemma py_split_once_append [py_facts]:
  "c \<notin> set a \<Longrightarrow> py_split_once c (a @ c # b) = [a, b]"
  by (auto simp: py_split_once_def takeWhile_append dropWhile_append)

lemma length_nat_digits_small: "n < 100 \<Longrightarrow> length (nat_digits n) \<le> 2"
proof (cases "n < 10")
  case True
  then show ?thesis by (subst nat_digits.simps) simp
next
  case False
  moreover assume "n < 100"
  ultimately have "n div 10 < 10" by simp
  with False show ?thesis by (simp add: nat_digits.simps [of n] nat_digits.simps [of "n div 10"])
qed

lemma takeWhile_no_sep [py_facts]: "c \<notin> set (takeWhile (\<lambda>x. x \<noteq> c) s)"
  by (metis (mono_tags) set_takeWhileD)

lemma py_endswith_mp3_nonempty [py_facts]: "py_endswith t ''.mp3'' \<Longrightarrow> t \<noteq> []"
  by (auto simp: py_endswith_def)

lemma py_join_endswith [py_facts]: "py_endswith b suf \<Longrightarrow> py_endswith (py_join a b) suf"
  by (auto simp: py_join_def py_endswith_iff)

end
