(* ===== verification/Scanner.thy ===== *)
theory Scanner
  imports Prelude
begin

text \<open>
  The library scanner of \<open>src/main.py\<close>: \<open>split_artist_title\<close> (lines 113--119),
  \<open>get_song_info\<close> (lines 74--93) and the loop of \<open>open_folder\<close> that turns the
  listing of a folder into the rows of the track table (lines 101--111). What eyed3 reads
  from a file and what \<open>os.path.getsize\<close> returns are inputs, a \<open>file_info\<close> per path.
  The lemmas give the behaviour of each function on every branch, the round trips of the
  file-name split and of the duration text, and the error raised when a file has no tags;
  the scan loop is proved to refine \<open>spec_row\<close>, the row the spec describes.
\<close>

subsection \<open>What the libraries report about a file\<close>

record id3_tag =
  tag_artist :: "string option"   \<comment> \<open>\<open>tag.artist\<close>: a string or \<open>None\<close>\<close>
  tag_title :: "string option"

record audio_file =
  af_tag :: "id3_tag option"   \<comment> \<open>\<open>audiofile.tag\<close>, \<open>None\<close> for a file without ID3 tag\<close>
  af_info_secs :: "real option"   \<comment> \<open>\<open>audiofile.info.time_secs\<close>; \<open>None\<close>: no \<open>info\<close>\<close>

record file_info =
  fi_size :: "nat option"   \<comment> \<open>\<open>os.path.getsize\<close>; \<open>None\<close>: the path cannot be stat'ed\<close>
  fi_eyed3 :: "audio_file option"   \<comment> \<open>\<open>eyed3.load\<close>; \<open>None\<close>: not recognised as MP3\<close>
  fi_playable :: bool   \<comment> \<open>whether \<open>pygame.mixer.music.load\<close> accepts it\<close>

text \<open>
  \<open>os.path.getsize\<close> raises \<open>OSError\<close> (\<open>FileNotFoundError\<close>, \<open>PermissionError\<close>)
  when the path cannot be stat'ed: the file was removed after the listing, or the entry is
  a dangling symbolic link.
\<close>

definition getsize :: "file_info \<Rightarrow> py_exc + nat" where
  "getsize fi = (case fi_size fi of None \<Rightarrow> Inl OSError | Some n \<Rightarrow> Inr n)"

text \<open>\<open>x if x else d\<close> for a value that is a string or \<open>None\<close>.\<close>

definition py_str_or :: "string option \<Rightarrow> string \<Rightarrow> string" where
  "py_str_or x d = (case x of Some v \<Rightarrow> if v = [] then d else v | None \<Rightarrow> d)"

subsection \<open>\<open>split_artist_title\<close>\<close>

text \<open>The unpacking \<open>artist, title = ...\<close> raises \<open>ValueError\<close> unless the split gives
  exactly two pieces.\<close>

definition split_artist_title :: "string \<Rightarrow> py_exc + string \<times> string" where
  "split_artist_title file_name =
     (if CHR ''-'' \<in> set file_name then
        (case py_split_once CHR ''-'' file_name of
           [artist, title] \<Rightarrow> Inr (artist, title)
         | _ \<Rightarrow> Inl ValueError)
      else Inr (''Unknown Artist'', file_name))"

subsection \<open>\<open>get_song_info\<close>\<close>

text \<open>\<open>f"{minutes}:{seconds:02d}"\<close> with Python's floor division and modulo.\<close>

definition format_duration :: "int \<Rightarrow> string" where
  "format_duration duration =
     (let minutes = duration div 60; seconds = duration mod 60
      in py_str_int minutes @ '':'' @ py_format_0d 2 seconds)"

text \<open>
  The \<open>try\<close> body, lines 76--82. Reading \<open>audiofile.tag\<close> of \<open>None\<close>,
  \<open>.artist\<close> of a missing tag or \<open>.time_secs\<close> of a missing \<open>info\<close> raises
  \<open>AttributeError\<close>; otherwise it yields artist, title, duration and duration text.
\<close>

definition read_tags :: "path \<Rightarrow> audio_file option \<Rightarrow> py_exc + string \<times> string \<times> int \<times> string" where
  "read_tags file_path audiofile =
     (case audiofile of
        None \<Rightarrow> Inl AttributeError
      | Some af \<Rightarrow>
          (case af_tag af of
             None \<Rightarrow> Inl AttributeError
           | Some tag \<Rightarrow>
               (let artist = py_str_or (tag_artist tag) ''Unknown Artist'';
                    title = py_str_or (tag_title tag) (py_basename file_path)
                in case af_info_secs af of
                     None \<Rightarrow> Inl AttributeError
                   | Some secs \<Rightarrow>
                       (let duration = py_int_of_float secs
                        in Inr (artist, title, duration, format_duration duration)))))"

text \<open>Lines 88--91: whole mebibytes, rounded down.\<close>

definition format_size :: "nat \<Rightarrow> string" where
  "format_size file_size =
     (let file_size_kb = file_size div 1024; file_size_mb = file_size_kb div 1024
      in py_str_int (int file_size_mb) @ '' MB'')"

type_synonym song_info = "string \<times> string \<times> string \<times> string \<times> int"

text \<open>
  The whole function. The \<open>try\<close> block catches every exception of lines 76--82; then
  \<open>os.path.getsize\<close> (line 88) may raise. The \<open>except\<close> branch (lines 84--86) assigns
  \<open>artist\<close>, \<open>title\<close> and \<open>duration_str\<close> but not \<open>duration\<close>, so after it the
  \<open>return\<close> of line 93 reads an unbound local and raises \<open>UnboundLocalError\<close>.
\<close>

definition get_song_info :: "file_info \<Rightarrow> path \<Rightarrow> py_exc + song_info" where
  "get_song_info fi file_path =
     (let tried = read_tags file_path (fi_eyed3 fi)
      in case getsize fi of
           Inl e \<Rightarrow> Inl e
         | Inr file_size \<Rightarrow>
             (case tried of
                Inr (artist, title, duration, duration_str) \<Rightarrow>
                  Inr (artist, title, duration_str, format_size file_size, duration)
              | Inl _ \<Rightarrow> Inl UnboundLocalError))"

fun info_duration :: "song_info \<Rightarrow> int" where
  "info_duration (_, _, _, _, d) = d"   \<comment> \<open>\<open>get_song_info(...)[4]\<close>\<close>

fun info_columns :: "song_info \<Rightarrow> string \<times> string" where
  "info_columns (_, _, ds, sz, _) = (ds, sz)"   \<comment> \<open>\<open>get_song_info(...)[2:4]\<close>\<close>

subsection \<open>The scan loop of \<open>open_folder\<close>\<close>

record item =
  col_artist :: string
  col_title :: string
  col_duration :: string
  col_size :: string
  item_path :: path   \<comment> \<open>the \<open>UserRole\<close> data of column 0\<close>

text \<open>
  Lines 101--111 over the listing \<open>os.listdir(folder_path)\<close>, in its order. The first
  exception ends the loop and leaves \<open>open_folder\<close>.
\<close>

fun scan_folder :: "(path \<Rightarrow> file_info) \<Rightarrow> path \<Rightarrow> string list \<Rightarrow> py_exc + item list" where
  "scan_folder files folder_path [] = Inr []"
| "scan_folder files folder_path (file_name # rest) =
     (if py_endswith file_name ''.mp3'' then
        (let file_path = py_join folder_path file_name
         in case split_artist_title file_name of
              Inl e \<Rightarrow> Inl e
            | Inr (artist, title) \<Rightarrow>
                (case get_song_info (files file_path) file_path of
                   Inl e \<Rightarrow> Inl e
                 | Inr info \<Rightarrow>
                     (case scan_folder files folder_path rest of
                        Inl e \<Rightarrow> Inl e
                      | Inr items \<Rightarrow>
                          Inr (\<lparr>col_artist = artist, col_title = title,
                                col_duration = fst (info_columns info),
                                col_size = snd (info_columns info),
                                item_path = file_path\<rparr> # items))))
      else scan_folder files folder_path rest)"

subsection \<open>Reading the displayed duration back\<close>

text \<open>
  Readers of the displayed texts, used to state that the columns are faithful: an integer
  as \<open>str\<close> prints it, the \<open>m:ss\<close> duration (minutes may carry a sign), and the
  \<open>k MB\<close> size.
\<close>

definition parse_int :: "string \<Rightarrow> int option" where
  "parse_int s =
     (if s \<noteq> [] \<and> hd s = CHR ''-'' then map_option (\<lambda>n. - int n) (parse_nat (tl s))
      else map_option int (parse_nat s))"

definition parse_duration :: "string \<Rightarrow> int option" where
  "parse_duration s =
     (case py_split_once CHR '':'' s of
        [m, ss] \<Rightarrow>
          (case (parse_int m, parse_nat ss) of
             (Some a, Some b) \<Rightarrow> if length ss = 2 \<and> b < 60 then Some (60 * a + int b) else None
           | _ \<Rightarrow> None)
      | _ \<Rightarrow> None)"

definition parse_size :: "string \<Rightarrow> nat option" where
  "parse_size s = (if py_endswith s '' MB'' then parse_nat (take (length s - 3) s) else None)"

text \<open>
  A well-formed row of the table: it plays an \<open>.mp3\<close> path, and its duration and size
  columns read back as a duration and a size.
\<close>

definition row_ok :: "item \<Rightarrow> bool" where
  "row_ok it \<longleftrightarrow>
     py_endswith (item_path it) ''.mp3'' \<and> parse_duration (col_duration it) \<noteq> None \<and>
     parse_size (col_size it) \<noteq> None"

text \<open>An entry whose tags cannot be read: eyed3 does not recognise it, or finds no tag or
  no stream information.\<close>

definition tags_unreadable :: "(path \<Rightarrow> file_info) \<Rightarrow> path \<Rightarrow> string \<Rightarrow> bool" where
  "tags_unreadable files dir n \<longleftrightarrow>
     (\<exists>x. read_tags (py_join dir n) (fi_eyed3 (files (py_join dir n))) = Inl x)"

text \<open>
  The exception an \<open>.mp3\<close> entry makes the scan raise, if any: \<open>OSError\<close> when its size
  cannot be read, \<open>UnboundLocalError\<close> when its tags cannot; and the exception of the
  first such entry of a listing.
\<close>

definition entry_error :: "(path \<Rightarrow> file_info) \<Rightarrow> path \<Rightarrow> string \<Rightarrow> py_exc option" where
  "entry_error files dir n =
     (if fi_size (files (py_join dir n)) = None then Some OSError
      else if tags_unreadable files dir n then Some UnboundLocalError else None)"

definition scan_error :: "(path \<Rightarrow> file_info) \<Rightarrow> path \<Rightarrow> string list \<Rightarrow> py_exc option" where
  "scan_error files dir names =
     Option.bind (find (\<lambda>n. py_endswith n ''.mp3'' \<and> entry_error files dir n \<noteq> None) names)
       (entry_error files dir)"

subsection \<open>The scan as the spec describes it\<close>

text \<open>
  The row the spec (sections 3 and 4.1) asks for from a file name: artist and title from
  the split at the first dash (\<open>Unknown Artist\<close> and the whole name without one), the
  duration as \<open>m:ss\<close> or \<open>N/A\<close> when the tags cannot be read, the size in MB.
\<close>

definition spec_row :: "(path \<Rightarrow> file_info) \<Rightarrow> path \<Rightarrow> string \<Rightarrow> item" where
  "spec_row files dir n =
     (let p = py_join dir n;
          dash = CHR ''-'' \<in> set n
      in \<lparr>col_artist = (if dash then takeWhile (\<lambda>c. c \<noteq> CHR ''-'') n else ''Unknown Artist''),
          col_title = (if dash then tl (dropWhile (\<lambda>c. c \<noteq> CHR ''-'') n) else n),
          col_duration = (case read_tags p (fi_eyed3 (files p)) of
                            Inr (_, _, d, _) \<Rightarrow> format_duration d | Inl _ \<Rightarrow> ''N/A''),
          col_size = (case fi_size (files p) of Some sz \<Rightarrow> format_size sz | None \<Rightarrow> ''N/A''),
          item_path = p\<rparr>)"

subsection \<open>Lemmas\<close>

lemma split_artist_title_dash:
  assumes "CHR ''-'' \<in> set fn"
  shows "split_artist_title fn = Inr (takeWhile (\<lambda>x. x \<noteq> CHR ''-'') fn, tl (dropWhile (\<lambda>x. x \<noteq> CHR ''-'') fn))"
  using assms by (simp add: split_artist_title_def py_split_once_found)

lemma split_artist_title_Inr: "\<exists>a t. split_artist_title fn = Inr (a, t)"
  by (cases "CHR ''-'' \<in> set fn") (simp_all add: split_artist_title_dash, simp add: split_artist_title_def)

lemma split_artist_title_dash_parts:
  assumes "CHR ''-'' \<in> set fn" and "split_artist_title fn = Inr (artist, title)"
  shows "fn = artist @ CHR ''-'' # title \<and> CHR ''-'' \<notin> set artist"
proof -
  from assms have a: "artist = takeWhile (\<lambda>x. x \<noteq> CHR ''-'') fn"
    and t: "title = tl (dropWhile (\<lambda>x. x \<noteq> CHR ''-'') fn)"
    by (simp_all add: split_artist_title_dash)
  from a t takeWhile_dropWhile_sep [OF assms(1)] takeWhile_no_sep show ?thesis by metis
qed

lemma split_artist_title_plain:
  "CHR ''-'' \<notin> set fn \<Longrightarrow> split_artist_title fn = Inr (''Unknown Artist'', fn)"
  by (simp add: split_artist_title_def)

lemma split_artist_title_mp3:
  assumes "py_endswith fn ''.mp3''" and "split_artist_title fn = Inr (artist, title)"
  shows "py_endswith title ''.mp3''"
proof (cases "CHR ''-'' \<in> set fn")
  case True
  with assms(2) have fn: "fn = artist @ CHR ''-'' # title"
    by (simp add: split_artist_title_dash_parts)
  from assms(1) obtain p where p: "fn = p @ ''.mp3''" by (auto simp: py_endswith_iff)
  from fn p have "artist @ CHR ''-'' # title = p @ ''.mp3''" by simp
  then obtain us where
    "(artist = p @ us \<and> us @ CHR ''-'' # title = ''.mp3'') \<or>
     (artist @ us = p \<and> CHR ''-'' # title = us @ ''.mp3'')"
    unfolding append_eq_append_conv2 by blast
  then have "\<exists>us'. title = us' @ ''.mp3''"
  proof
    assume "artist = p @ us \<and> us @ CHR ''-'' # title = ''.mp3''"
    then have "CHR ''-'' \<in> set ''.mp3''" by (metis in_set_conv_decomp)
    then show ?thesis by simp
  next
    assume "artist @ us = p \<and> CHR ''-'' # title = us @ ''.mp3''"
    then show ?thesis by (cases us) auto
  qed
  then show ?thesis by (simp add: py_endswith_iff)
next
  case False
  with assms show ?thesis by (simp add: split_artist_title_plain)
qed

lemma colon_not_digit: "\<not> is_digit CHR '':''"
  by (simp add: is_digit_def)

lemma minus_not_digit: "\<not> is_digit CHR ''-''"
  by (simp add: is_digit_def)

lemma parse_int_py_str_int: "parse_int (py_str_int i) = Some i"
proof (cases "i < 0")
  case True
  then show ?thesis by (simp add: parse_int_def py_str_int_def parse_nat_nat_digits)
next
  case False
  have "hd (nat_digits (nat i)) \<noteq> CHR ''-''"
    using nat_digits_all_digits [of "nat i"] nat_digits_nonempty [of "nat i"] minus_not_digit
    by (metis list.set_sel(1))
  with False show ?thesis by (simp add: parse_int_def py_str_int_def parse_nat_nat_digits)
qed

lemma py_str_int_no_colon: "CHR '':'' \<notin> set (py_str_int i)"
  by (simp add: py_str_int_def nat_digits_no_sep colon_not_digit)

lemma format_duration_parts:
  "format_duration d =
    py_str_int (d div 60) @ CHR '':'' #
      replicate (2 - length (nat_digits (nat (d mod 60)))) CHR ''0'' @ nat_digits (nat (d mod 60))"
proof -
  have "\<not> d mod 60 < 0" by simp
  then show ?thesis by (simp add: format_duration_def py_format_0d_def Let_def)
qed

lemma format_duration_reads_back: "parse_duration (format_duration d) = Some d"
proof -
  let ?s = "nat (d mod 60)"
  let ?ss = "replicate (2 - length (nat_digits ?s)) CHR ''0'' @ nat_digits ?s"
  have split: "py_split_once CHR '':'' (format_duration d) = [py_str_int (d div 60), ?ss]"
    by (simp add: format_duration_parts py_split_once_append py_str_int_no_colon)
  have "?s < 60" by simp
  then have len: "length ?ss = 2" using length_nat_digits_small [of ?s] by simp
  have "60 * (d div 60) + int ?s = d" by simp
  with split len \<open>?s < 60\<close> show ?thesis
    by (simp add: parse_duration_def parse_int_py_str_int parse_nat_padded)
qed

text \<open>
  C16: The duration column is faithful: for every duration, reading the \<open>m:ss\<close> text
  that \<open>get_song_info\<close> displays gives the duration back.
\<close>

lemma parse_format_duration: "parse_duration (format_duration d) = Some d"
  by (rule format_duration_reads_back)

lemma format_duration_125: "format_duration 125 = ''2:05''"
  by (simp add: format_duration_def py_defs nat_digits.simps)

lemma get_song_info_Inl:
  "get_song_info fi p = Inl e \<longleftrightarrow>
     (if fi_size fi = None then e = OSError
      else e = UnboundLocalError \<and> (\<exists>x. read_tags p (fi_eyed3 fi) = Inl x))"
  by (auto simp: get_song_info_def getsize_def split: option.splits sum.splits prod.splits)

lemma get_song_info_entry:
  "get_song_info (files (py_join dir n)) (py_join dir n) = Inl e \<longleftrightarrow> entry_error files dir n = Some e"
  by (auto simp: get_song_info_Inl entry_error_def tags_unreadable_def)

lemma format_duration_has_colon: "CHR '':'' \<in> set (format_duration d)"
  by (simp add: format_duration_def)

text \<open>
  C17: \<open>get_song_info\<close> never returns the duration text \<open>N/A\<close>: the fallback of its
  \<open>except\<close> branch cannot reach the caller, because that branch always ends in
  \<open>UnboundLocalError\<close>.
\<close>

lemma get_song_info_never_na:
  assumes "get_song_info fi p = Inr info"
  shows "fst (info_columns info) \<noteq> ''N/A''"
proof -
  from assms obtain a t dur ds sz where r: "read_tags p (fi_eyed3 fi) = Inr (a, t, dur, ds)"
    and info: "info = (a, t, ds, format_size sz, dur)"
    by (auto simp: get_song_info_def getsize_def split: option.splits sum.splits prod.splits)
  from r have "ds = format_duration dur"
    by (auto simp: read_tags_def Let_def split: option.splits)
  with info have "CHR '':'' \<in> set (fst (info_columns info))"
    by (simp add: format_duration_has_colon)
  then show ?thesis by auto
qed

lemma scan_folder_no_mp3:
  "\<forall>n \<in> set names. \<not> py_endswith n ''.mp3'' \<Longrightarrow> scan_folder files dir names = Inr []"
  by (induction names) simp_all

lemma scan_folder_Cons_mp3:
  assumes "py_endswith n ''.mp3''"
  shows "\<exists>artist title. split_artist_title n = Inr (artist, title) \<and>
    scan_folder files dir (n # ns) =
      (case get_song_info (files (py_join dir n)) (py_join dir n) of
         Inl e \<Rightarrow> Inl e
       | Inr info \<Rightarrow>
           (case scan_folder files dir ns of
              Inl e \<Rightarrow> Inl e
            | Inr items \<Rightarrow>
                Inr (\<lparr>col_artist = artist, col_title = title,
                      col_duration = fst (info_columns info), col_size = snd (info_columns info),
                      item_path = py_join dir n\<rparr> # items)))"
proof -
  obtain artist title where "split_artist_title n = Inr (artist, title)"
    using split_artist_title_Inr by blast
  with assms show ?thesis by (simp add: Let_def)
qed

lemma scan_folder_Cons_error:
  assumes "py_endswith n ''.mp3''" and "get_song_info (files (py_join dir n)) (py_join dir n) = Inl e"
  shows "scan_folder files dir (n # ns) = Inl e"
  using scan_folder_Cons_mp3 [OF assms(1), of files dir ns] assms(2) by auto

lemma scan_folder_Cons_row:
  assumes "py_endswith n ''.mp3''" and "get_song_info (files (py_join dir n)) (py_join dir n) = Inr info"
  obtains it where "item_path it = py_join dir n" and "py_endswith (col_title it) ''.mp3''"
    and "scan_folder files dir (n # ns) =
           (case scan_folder files dir ns of Inl e \<Rightarrow> Inl e | Inr items \<Rightarrow> Inr (it # items))"
proof -
  from scan_folder_Cons_mp3 [OF assms(1), of files dir ns] obtain artist title
    where sp: "split_artist_title n = Inr (artist, title)" and eq: "scan_folder files dir (n # ns) =
      (case get_song_info (files (py_join dir n)) (py_join dir n) of
         Inl e \<Rightarrow> Inl e
       | Inr info \<Rightarrow>
           (case scan_folder files dir ns of
              Inl e \<Rightarrow> Inl e
            | Inr items \<Rightarrow>
                Inr (\<lparr>col_artist = artist, col_title = title,
                      col_duration = fst (info_columns info), col_size = snd (info_columns info),
                      item_path = py_join dir n\<rparr> # items)))" by blast
  from assms(1) sp have "py_endswith title ''.mp3''" by (rule split_artist_title_mp3)
  with eq assms(2) show ?thesis by (intro that [of "\<lparr>col_artist = artist, col_title = title,
      col_duration = fst (info_columns info), col_size = snd (info_columns info),
      item_path = py_join dir n\<rparr>"]) simp_all
qed

lemma scan_folder_rows:
  assumes "scan_folder files dir names = Inr items"
  shows "map item_path items = map (py_join dir) (filter (\<lambda>n. py_endswith n ''.mp3'') names)
    \<and> (\<forall>it \<in> set items. py_endswith (col_title it) ''.mp3'')"
  using assms
proof (induction names arbitrary: items)
  case Nil
  then show ?case by simp
next
  case (Cons n ns)
  show ?case
  proof (cases "py_endswith n ''.mp3''")
    case True
    show ?thesis
    proof (cases "get_song_info (files (py_join dir n)) (py_join dir n)")
      case (Inl e)
      with True Cons.prems show ?thesis by (simp add: scan_folder_Cons_error del: scan_folder.simps(2))
    next
      case (Inr info)
      with True obtain it where "item_path it = py_join dir n" "py_endswith (col_title it) ''.mp3''"
        and "scan_folder files dir (n # ns) =
           (case scan_folder files dir ns of Inl e \<Rightarrow> Inl e | Inr items \<Rightarrow> Inr (it # items))"
        by (rule scan_folder_Cons_row)
      with Cons.prems Cons.IH True show ?thesis by (auto simp del: scan_folder.simps(2) split: sum.splits)
    qed
  next
    case False
    with Cons show ?thesis by simp
  qed
qed

lemma scan_error_Nil [simp]: "scan_error files dir [] = None"
  by (simp add: scan_error_def)

lemma scan_error_Cons [simp]:
  "scan_error files dir (n # ns) =
     (if py_endswith n ''.mp3'' \<and> entry_error files dir n \<noteq> None then entry_error files dir n
      else scan_error files dir ns)"
  by (auto simp: scan_error_def)

lemma scan_folder_error:
  "scan_folder files dir names = Inl e \<longleftrightarrow> scan_error files dir names = Some e"
proof (induction names)
  case Nil
  then show ?case by simp
next
  case (Cons n ns)
  show ?case
  proof (cases "py_endswith n ''.mp3''")
    case True
    show ?thesis
    proof (cases "entry_error files dir n")
      case (Some e')
      then have "get_song_info (files (py_join dir n)) (py_join dir n) = Inl e'"
        by (simp add: get_song_info_entry)
      with True Some show ?thesis by (simp add: scan_folder_Cons_error del: scan_folder.simps(2))
    next
      case None
      then obtain info where "get_song_info (files (py_join dir n)) (py_join dir n) = Inr info"
        by (cases "get_song_info (files (py_join dir n)) (py_join dir n)") (auto simp: get_song_info_entry)
      with True obtain it where "scan_folder files dir (n # ns) =
           (case scan_folder files dir ns of Inl e \<Rightarrow> Inl e | Inr items \<Rightarrow> Inr (it # items))"
        by (rule scan_folder_Cons_row)
      with True None Cons.IH show ?thesis by (auto simp del: scan_folder.simps(2) split: sum.splits)
    qed
  next
    case False
    with Cons.IH show ?thesis by simp
  qed
qed

lemma scan_error_cases: "scan_error files dir names = Some e \<Longrightarrow> e = OSError \<or> e = UnboundLocalError"
  by (induction names) (auto simp: entry_error_def split: if_splits)

text \<open>
  C5: \<open>split_artist_title\<close> never raises, and for a name with a dash it returns the
  text before the first dash as artist and everything after it as title (so that
  \<open>artist - title\<close> rebuilds the name); for a name without a dash it returns
  \<open>Unknown Artist\<close> and the whole name.
\<close>

theorem split_artist_title_spec:
  "split_artist_title fn = Inr (artist, title) \<longleftrightarrow>
     (if CHR ''-'' \<in> set fn then fn = artist @ ''-'' @ title \<and> CHR ''-'' \<notin> set artist
      else artist = ''Unknown Artist'' \<and> title = fn)"
proof (cases "CHR ''-'' \<in> set fn")
  case True
  have "split_artist_title fn = Inr (artist, title)"
    if "fn = artist @ ''-'' @ title" and "CHR ''-'' \<notin> set artist"
  proof -
    from that have "py_split_once CHR ''-'' fn = [artist, title]" by (simp add: py_split_once_append)
    with True show ?thesis by (simp add: split_artist_title_def)
  qed
  with True split_artist_title_dash_parts [OF True] show ?thesis by auto
next
  case False
  then show ?thesis by (auto simp: split_artist_title_plain)
qed

lemma format_size_value: "format_size n = nat_digits (n div 1048576) @ '' MB''"
  by (simp add: format_size_def py_str_int_def Let_def div_mult2_eq [symmetric])

text \<open>
  C22: The size column shows the size in whole mebibytes rounded down: the number it shows
  is the \<open>k\<close> with \<open>k * 2^20 \<le> size < (k + 1) * 2^20\<close>.
\<close>

lemma format_size_bounds:
  "\<exists>k. parse_nat (takeWhile (\<lambda>c. c \<noteq> CHR '' '') (format_size n)) = Some k \<and>
     k * 1048576 \<le> n \<and> n < (k + 1) * 1048576"
proof -
  have "CHR '' '' \<notin> set (nat_digits (n div 1048576))" by (simp add: nat_digits_no_sep is_digit_def)
  then have "takeWhile (\<lambda>c. c \<noteq> CHR '' '') (format_size n) = nat_digits (n div 1048576)"
    by (simp add: format_size_value takeWhile_append)
  moreover have "n div 1048576 * 1048576 \<le> n" by (rule div_times_less_eq_dividend)
  moreover have "n < (n div 1048576 + 1) * 1048576"
    using dividend_less_div_times [of 1048576 n] by simp
  ultimately show ?thesis by (simp add: parse_nat_nat_digits)
qed

lemma split_artist_title_value:
  "split_artist_title n =
     Inr (if CHR ''-'' \<in> set n then takeWhile (\<lambda>c. c \<noteq> CHR ''-'') n else ''Unknown Artist'',
          if CHR ''-'' \<in> set n then tl (dropWhile (\<lambda>c. c \<noteq> CHR ''-'') n) else n)"
  by (simp add: split_artist_title_dash split_artist_title_plain)

lemma get_song_info_readable:
  "entry_error files dir n = None \<Longrightarrow>
   \<exists>info. get_song_info (files (py_join dir n)) (py_join dir n) = Inr info \<and>
     info_columns info = (col_duration (spec_row files dir n), col_size (spec_row files dir n))"
  by (auto simp: entry_error_def tags_unreadable_def get_song_info_def getsize_def spec_row_def Let_def
      read_tags_def split: sum.splits option.splits if_splits)

lemma scan_folder_spec_rows:
  "scan_error files dir names = None \<Longrightarrow>
     scan_folder files dir names = Inr (map (spec_row files dir) (filter (\<lambda>n. py_endswith n ''.mp3'') names))"
proof (induction names)
  case Nil
  then show ?case by simp
next
  case (Cons n ns)
  show ?case
  proof (cases "py_endswith n ''.mp3''")
    case True
    with Cons.prems have "entry_error files dir n = None" by (auto split: if_splits)
    then obtain info where gi: "get_song_info (files (py_join dir n)) (py_join dir n) = Inr info"
      and cols: "info_columns info = (col_duration (spec_row files dir n), col_size (spec_row files dir n))"
      using get_song_info_readable by blast
    from Cons True \<open>entry_error files dir n = None\<close> have "scan_folder files dir ns =
        Inr (map (spec_row files dir) (filter (\<lambda>n. py_endswith n ''.mp3'') ns))" by simp
    with True gi cols show ?thesis by (simp add: split_artist_title_value spec_row_def Let_def)
  next
    case False
    with Cons show ?thesis by simp
  qed
qed

lemma parse_size_format_size: "parse_size (format_size n) = Some (n div 1048576)"
  by (simp add: parse_size_def format_size_value py_endswith_def parse_nat_nat_digits)

lemma spec_row_ok:
  assumes "entry_error files dir n = None" and "py_endswith n ''.mp3''"
  shows "row_ok (spec_row files dir n)"
proof -
  from assms(1) obtain sz a t d ds where "fi_size (files (py_join dir n)) = Some sz"
    and "read_tags (py_join dir n) (fi_eyed3 (files (py_join dir n))) = Inr (a, t, d, ds)"
    by (auto simp: entry_error_def tags_unreadable_def split: if_splits) (metis sum.exhaust prod_cases4)
  with assms(2) show ?thesis
    by (simp add: row_ok_def spec_row_def Let_def py_join_endswith format_duration_reads_back
        parse_size_format_size)
qed

lemma scan_folder_rows_ok:
  assumes "scan_folder files dir names = Inr items"
  shows "\<forall>it \<in> set items. row_ok it"
proof -
  have "scan_error files dir names = None"
    using assms scan_folder_error [of files dir names] by (cases "scan_error files dir names") auto
  moreover have "entry_error files dir n = None"
    if "scan_error files dir names = None" "n \<in> set names" "py_endswith n ''.mp3''" for n
    using that by (induction names) (auto split: if_splits)
  ultimately show ?thesis using assms
    by (auto simp: scan_folder_spec_rows intro!: spec_row_ok)
qed

text \<open>
  C23: Refinement of the spec's scan: the scan loop yields exactly the spec's rows, in the
  listing's order, for every folder whose \<open>.mp3\<close> entries all have a size and readable
  tags; otherwise it raises the exception of the first entry that has not, \<open>OSError\<close> or
  \<open>UnboundLocalError\<close>, where the spec lists \<open>N/A\<close>.
\<close>

theorem scan_folder_refines_spec:
  "scan_folder files dir names =
     (case scan_error files dir names of
        Some e \<Rightarrow> Inl e
      | None \<Rightarrow> Inr (map (spec_row files dir) (filter (\<lambda>n. py_endswith n ''.mp3'') names)))"
proof (cases "scan_error files dir names")
  case None
  then show ?thesis by (simp add: scan_folder_spec_rows)
next
  case (Some e)
  then show ?thesis by (simp add: scan_folder_error)
qed

end
