(* ===== verification/Collaborators.thy ===== *)
theory Collaborators
  imports Prelude "HOL-Library.Word"
begin

text \<open>
  The libraries the player drives, as far as \<open>src/main.py\<close> observes them. They are not
  code of the repository; each is modelled from its documented behaviour, with the state the
  player can see:
  \<^item> \<open>pygame.mixer.music\<close> as a record \<open>mixer\<close> and a datatype \<open>mixer_cmd\<close> of the calls
    the player makes, executed by \<open>mixer_call\<close>, which also appends the call to a log so that
    the order of calls is observable;
  \<^item> Qt's \<open>QProgressBar\<close> (\<open>setRange\<close>, \<open>setValue\<close>) as a record \<open>pbar\<close>;
  \<^item> Qt's \<open>QSlider\<close> range clamping and its \<open>valueChanged\<close> signal;
  \<^item> PyQt's conversion of a Python \<open>int\<close> argument to a C \<open>int\<close> (a \<open>32 word\<close> read
    as signed), which raises \<open>OverflowError\<close> instead of wrapping.
\<close>

subsection \<open>The audio mixer\<close>

datatype music_status = Stopped | Playing | Paused

datatype mixer_cmd = Load path | Play | Pause | Unpause | SetVolume real

record mixer =
  mx_loaded :: "path option"   \<comment> \<open>the music file loaded, if any\<close>
  mx_status :: music_status
  mx_volume :: real
  mx_calls :: "mixer_cmd list"   \<comment> \<open>every call received, oldest first\<close>

text \<open>After \<open>pygame.mixer.init()\<close>: nothing loaded, full volume.\<close>

definition mixer_init :: mixer where
  "mixer_init = \<lparr>mx_loaded = None, mx_status = Stopped, mx_volume = 1, mx_calls = []\<rparr>"

text \<open>
  One call. \<open>load\<close> raises \<open>pygame.error\<close> for a file the decoder rejects and then keeps
  the music loaded before; a successful \<open>load\<close> replaces it and stops playback. \<open>play\<close>
  raises when nothing is loaded and otherwise starts from the beginning. \<open>pause\<close> and
  \<open>unpause\<close> act only on playing and paused music respectively.
\<close>

fun mixer_exec :: "(path \<Rightarrow> bool) \<Rightarrow> mixer_cmd \<Rightarrow> mixer \<Rightarrow> py_exc option \<times> mixer" where
  "mixer_exec playable (Load p) m =
     (if playable p then (None, m\<lparr>mx_loaded := Some p, mx_status := Stopped\<rparr>)
      else (Some PygameError, m))"
| "mixer_exec playable Play m =
     (if mx_loaded m = None then (Some PygameError, m) else (None, m\<lparr>mx_status := Playing\<rparr>))"
| "mixer_exec playable Pause m =
     (None, if mx_status m = Playing then m\<lparr>mx_status := Paused\<rparr> else m)"
| "mixer_exec playable Unpause m =
     (None, if mx_status m = Paused then m\<lparr>mx_status := Playing\<rparr> else m)"
| "mixer_exec playable (SetVolume v) m = (None, m\<lparr>mx_volume := v\<rparr>)"

definition mixer_call :: "(path \<Rightarrow> bool) \<Rightarrow> mixer_cmd \<Rightarrow> mixer \<Rightarrow> py_exc option \<times> mixer" where
  "mixer_call playable c m = mixer_exec playable c (m\<lparr>mx_calls := mx_calls m @ [c]\<rparr>)"

text \<open>The music reaches its end by itself.\<close>

definition mixer_track_end :: "mixer \<Rightarrow> mixer" where
  "mixer_track_end m = (if mx_status m = Playing then m\<lparr>mx_status := Stopped\<rparr> else m)"

subsection \<open>The progress bar\<close>

record pbar =
  pb_min :: int
  pb_max :: int
  pb_value :: int

text \<open>
  \<open>QProgressBar.setRange(lo, hi)\<close>: a maximum below the minimum is raised to it, and a
  value outside the new range resets the bar to \<open>lo - 1\<close> (no progress shown).
  \<open>setValue(v)\<close> ignores a value outside the range, unless the range is \<open>0..0\<close>.
\<close>

definition pbar_set_range :: "int \<Rightarrow> int \<Rightarrow> pbar \<Rightarrow> pbar" where
  "pbar_set_range lo hi b =
     (let hi' = max lo hi
      in if pb_value b < lo - 1 \<or> hi' < pb_value b
         then b\<lparr>pb_min := lo, pb_max := hi', pb_value := lo - 1\<rparr>
         else b\<lparr>pb_min := lo, pb_max := hi'\<rparr>)"

definition pbar_set_value :: "int \<Rightarrow> pbar \<Rightarrow> pbar" where
  "pbar_set_value v b =
     (if (v < pb_min b \<or> pb_max b < v) \<and> (pb_min b \<noteq> 0 \<or> pb_max b \<noteq> 0) then b
      else b\<lparr>pb_value := v\<rparr>)"

text \<open>A new bar has range \<open>0..100\<close> and value \<open>-1\<close>.\<close>

definition pbar_new :: pbar where
  "pbar_new = \<lparr>pb_min = 0, pb_max = 100, pb_value = -1\<rparr>"

text \<open>
  The bar never shows a value outside \<open>lo - 1 .. hi\<close>, except in Qt's busy mode, the
  range \<open>0..0\<close>, where every value is accepted.
\<close>

definition pbar_ok :: "pbar \<Rightarrow> bool" where
  "pbar_ok b \<longleftrightarrow> pb_min b \<le> pb_max b \<and>
     ((pb_min b = 0 \<and> pb_max b = 0) \<or> (pb_min b - 1 \<le> pb_value b \<and> pb_value b \<le> pb_max b))"

subsection \<open>Integer arguments of Qt methods\<close>

type_synonym c_int = "32 word"

text \<open>
  PyQt (sip) passes a Python \<open>int\<close> to a C++ \<open>int\<close> parameter only when it lies in
  \<open>-2^31 .. 2^31 - 1\<close>; any other value raises \<open>OverflowError\<close> before the method runs.
  The C value is the 32-bit word, which Qt reads as signed.
\<close>

definition sip_int :: "int \<Rightarrow> py_exc + c_int" where
  "sip_int v = (if - (2 ^ 31) \<le> v \<and> v < 2 ^ 31 then Inr (word_of_int v) else Inl OverflowError)"

subsection \<open>The volume slider\<close>

text \<open>
  \<open>QSlider\<close> with range \<open>0..100\<close>: a requested value is clamped into the range, and
  \<open>valueChanged\<close> is emitted only when the stored value changes.
\<close>

definition slider_bound :: "int \<Rightarrow> int" where
  "slider_bound v = max 0 (min 100 v)"

subsection \<open>Lemmas\<close>

lemma mixer_call_calls [simp]:
  "mx_calls (snd (mixer_call pl c m)) = mx_calls m @ [c]"
  by (cases c) (simp_all add: mixer_call_def)

lemma mixer_call_volume:
  "mx_volume (snd (mixer_call pl c m)) = (case c of SetVolume v \<Rightarrow> v | _ \<Rightarrow> mx_volume m)"
  by (cases c) (simp_all add: mixer_call_def)

lemma mixer_call_loaded:
  "mx_loaded (snd (mixer_call pl c m)) =
     (case c of Load p \<Rightarrow> if pl p then Some p else mx_loaded m | _ \<Rightarrow> mx_loaded m)"
  by (cases c) (simp_all add: mixer_call_def)

lemma mixer_call_never_raises:
  "c \<notin> range Load \<Longrightarrow> c \<noteq> Play \<Longrightarrow> fst (mixer_call pl c m) = None"
  by (cases c) (auto simp: mixer_call_def)

lemma mixer_track_end_calls [simp]: "mx_calls (mixer_track_end m) = mx_calls m"
  and mixer_track_end_volume [simp]: "mx_volume (mixer_track_end m) = mx_volume m"
  and mixer_track_end_loaded [simp]: "mx_loaded (mixer_track_end m) = mx_loaded m"
  by (simp_all add: mixer_track_end_def)

lemma pbar_new_ok: "pbar_ok (pbar_set_value 0 (pbar_set_range 0 100 pbar_new))"
  by (simp add: pbar_ok_def pbar_new_def pbar_set_range_def pbar_set_value_def)

lemma pbar_set_range_ok: "pbar_ok (pbar_set_range lo hi b)"
  by (auto simp: pbar_ok_def pbar_set_range_def Let_def)

lemma pbar_set_value_ok: "pbar_ok b \<Longrightarrow> pbar_ok (pbar_set_value v b)"
  by (auto simp: pbar_ok_def pbar_set_value_def)

lemma pbar_set_range_min [simp]: "pb_min (pbar_set_range lo hi b) = lo"
  by (simp add: pbar_set_range_def Let_def)

lemma pbar_set_value_min [simp]: "pb_min (pbar_set_value v b) = pb_min b"
  by (simp add: pbar_set_value_def)

lemma sint_word_of_int_c_int:
  "- (2 ^ 31) \<le> v \<Longrightarrow> v < 2 ^ 31 \<Longrightarrow> sint (word_of_int v :: c_int) = v"
  by (simp add: sint_sbintrunc' signed_take_bit_int_eq_self)

lemma sip_int_Inr: "sip_int v = Inr x \<Longrightarrow> sint x = v"
  by (auto simp: sip_int_def sint_word_of_int_c_int split: if_splits)

lemma sip_int_in_range: "- (2 ^ 31) \<le> v \<Longrightarrow> v < 2 ^ 31 \<Longrightarrow> sip_int v = Inr (word_of_int v)"
  by (simp add: sip_int_def)

lemma sip_int_Inl: "sip_int v = Inl e \<longleftrightarrow> e = OverflowError \<and> \<not> (- (2 ^ 31) \<le> v \<and> v < 2 ^ 31)"
  by (auto simp: sip_int_def)

lemma slider_bound_range: "0 \<le> slider_bound v \<and> slider_bound v \<le> 100"
  by (simp add: slider_bound_def)

end
