(* ===== verification/Player.thy ===== *)
theory Player
  imports Scanner Collaborators
begin

text \<open>
  The window class \<open>Mp3Player\<close> of \<open>src/main.py\<close>: its attributes and widgets as the
  record \<open>player\<close>, \<open>__init__\<close> as \<open>init_player\<close>, each slot as one definition
  (\<open>open_folder\<close>, \<open>toggle_play\<close>, \<open>play_previous\<close>, \<open>play_next\<close>,
  \<open>set_volume\<close>, \<open>update_progress\<close>), and Qt's event loop as \<open>handle\<close> over a
  datatype of events and \<open>run\<close> over a list of them. The file system and what the
  libraries report about files are the \<open>world\<close>, fixed during \<open>run\<close> and free to
  change between events in \<open>run_live\<close>. Qt's \<open>setRange\<close> and \<open>setValue\<close> receive
  their arguments through PyQt's checked conversion \<open>sip_int\<close>. A slot that lets an exception
  escape ends the program (PyQt6 aborts on an unhandled exception in a slot): \<open>Inl\<close>.
  The lemmas give the behaviour of each slot on every branch and an invariant
  \<open>player_ok\<close> that every event keeps.
\<close>

subsection \<open>State\<close>

record world =
  listdir :: "path \<Rightarrow> string list option"   \<comment> \<open>\<open>os.listdir\<close>, in its order; \<open>None\<close>: it raises\<close>
  files :: "path \<Rightarrow> file_info"

text \<open>\<open>os.listdir\<close> raises \<open>OSError\<close> for a folder that cannot be read (no permission,
  removed after the dialog closed).\<close>

definition os_listdir :: "world \<Rightarrow> path \<Rightarrow> py_exc + string list" where
  "os_listdir w d = (case listdir w d of None \<Rightarrow> Inl OSError | Some names \<Rightarrow> Inr names)"

definition playable :: "world \<Rightarrow> path \<Rightarrow> bool" where
  "playable w p = fi_playable (files w p)"

record player =
  is_playing :: bool
  current_song :: string
  song_duration :: int
  folder_path :: string
  current_position :: int
  tree :: "item list"   \<comment> \<open>top-level items of \<open>song_treeview\<close>\<close>
  selection :: "nat option"   \<comment> \<open>the selected row; the tree selects one row at most\<close>
  progress :: pbar
  slider :: int   \<comment> \<open>value of \<open>volume_slider\<close>\<close>
  music :: mixer   \<comment> \<open>\<open>pygame.mixer.music\<close>\<close>
  printed :: "py_exc list"   \<comment> \<open>errors printed by \<open>toggle_play\<close>\<close>

text \<open>
  \<open>__init__\<close> after \<open>pygame.mixer.init()\<close>. The slider is set to 100 before
  \<open>valueChanged\<close> is connected, so the mixer keeps its initial volume.
\<close>

definition init_player :: player where
  "init_player =
     \<lparr>is_playing = False, current_song = [], song_duration = 0, folder_path = [],
      current_position = 0, tree = [], selection = None,
      progress = pbar_set_value 0 (pbar_set_range 0 100 pbar_new),
      slider = 100, music = mixer_init, printed = []\<rparr>"

text \<open>\<open>song_treeview.selectedItems()\<close>, as row numbers.\<close>

definition selected_rows :: "player \<Rightarrow> nat list" where
  "selected_rows s =
     (case selection s of None \<Rightarrow> [] | Some i \<Rightarrow> if i < length (tree s) then [i] else [])"

subsection \<open>Slots\<close>

definition open_folder :: "world \<Rightarrow> string \<Rightarrow> player \<Rightarrow> py_exc + player" where
  "open_folder w chosen s =
     (if chosen = [] then Inr s
      else
        (let s1 = s\<lparr>folder_path := chosen, tree := [], selection := None\<rparr>
         in case os_listdir w chosen of
              Inl e \<Rightarrow> Inl e
            | Inr names \<Rightarrow>
                (case scan_folder (files w) chosen names of
                   Inl e \<Rightarrow> Inl e
                 | Inr items \<Rightarrow> Inr (s1\<lparr>tree := items\<rparr>))))"

text \<open>The \<open>except\<close> clause of \<open>toggle_play\<close>, line 142.\<close>

definition play_failed :: "py_exc \<Rightarrow> player \<Rightarrow> player" where
  "play_failed e s = s\<lparr>printed := printed s @ [e]\<rparr>"

definition toggle_play :: "world \<Rightarrow> player \<Rightarrow> py_exc + player" where
  "toggle_play w s =
     (case selected_rows s of
        [] \<Rightarrow> Inr s
      | i # _ \<Rightarrow>
          (let selected_item = tree s ! i;
               selected_file_path = item_path selected_item
           in if \<not> is_playing s then
                (if col_title selected_item \<noteq> current_song s then
                   (let s1 = s\<lparr>current_song := col_title selected_item\<rparr>;
                        (e1, m1) = mixer_call (playable w) (Load selected_file_path) (music s1);
                        s2 = s1\<lparr>music := m1\<rparr>
                    in case e1 of
                         Some e \<Rightarrow> Inr (play_failed e s2)
                       | None \<Rightarrow>
                           (let (e2, m2) = mixer_call (playable w) Play (music s2);
                                s3 = s2\<lparr>music := m2\<rparr>
                            in case e2 of
                                 Some e \<Rightarrow> Inr (play_failed e s3)
                               | None \<Rightarrow>
                                   (case get_song_info (files w selected_file_path) selected_file_path of
                                      Inl e \<Rightarrow> Inr (play_failed e s3)
                                    | Inr info \<Rightarrow>
                                        (let s4 = s3\<lparr>song_duration := info_duration info\<rparr>
                                         in case sip_int (song_duration s4) of
                                              Inl e \<Rightarrow> Inr (play_failed e s4)
                                            | Inr hi \<Rightarrow>
                                                (let s5 = s4\<lparr>progress := pbar_set_range 0 (sint hi) (progress s4)\<rparr>
                                                 in Inr (s5\<lparr>is_playing := True\<rparr>))))))
                 else
                   (let (e, m) = mixer_call (playable w) Unpause (music s)
                    in case e of
                         Some e' \<Rightarrow> Inr (play_failed e' (s\<lparr>music := m\<rparr>))
                       | None \<Rightarrow> Inr (s\<lparr>music := m, is_playing := True\<rparr>)))
              else
                (let (e, m) = mixer_call (playable w) Pause (music s)
                 in case e of
                      Some e' \<Rightarrow> Inl e'
                    | None \<Rightarrow> Inr (s\<lparr>music := m, is_playing := False\<rparr>))))"

text \<open>\<open>setCurrentItem\<close> selects the row and clears the previous selection.\<close>

definition play_previous :: "world \<Rightarrow> player \<Rightarrow> py_exc + player" where
  "play_previous w s =
     (case selected_rows s of
        [] \<Rightarrow> Inr s
      | current_index # _ \<Rightarrow>
          (if 0 < current_index
           then toggle_play w (s\<lparr>selection := Some (current_index - 1)\<rparr>)
           else Inr s))"

definition play_next :: "world \<Rightarrow> player \<Rightarrow> py_exc + player" where
  "play_next w s =
     (case selected_rows s of
        [] \<Rightarrow> Inr s
      | current_index # _ \<Rightarrow>
          (if int current_index < int (length (tree s)) - 1
           then toggle_play w (s\<lparr>selection := Some (current_index + 1)\<rparr>)
           else Inr s))"

text \<open>\<open>value / 100\<close> is Python's true division; the float rounding is not modelled.\<close>

definition set_volume :: "world \<Rightarrow> int \<Rightarrow> player \<Rightarrow> py_exc + player" where
  "set_volume w value s =
     (let volume = real_of_int value / 100;
          (e, m) = mixer_call (playable w) (SetVolume volume) (music s)
      in case e of Some e' \<Rightarrow> Inl e' | None \<Rightarrow> Inr (s\<lparr>music := m\<rparr>))"

text \<open>
  \<open>pos_ms\<close> is what \<open>pygame.mixer.music.get_pos()\<close> returns at the tick. The call
  \<open>setValue\<close> is outside any \<open>try\<close>: a position beyond the C \<open>int\<close> range escapes.
\<close>

definition update_progress :: "int \<Rightarrow> player \<Rightarrow> py_exc + player" where
  "update_progress pos_ms s =
     (if is_playing s
      then (let s1 = s\<lparr>current_position := pos_ms div 1000\<rparr>
            in case sip_int (current_position s1) of
                 Inl e \<Rightarrow> Inl e
               | Inr v \<Rightarrow> Inr (s1\<lparr>progress := pbar_set_value (sint v) (progress s1)\<rparr>))
      else Inr s)"

subsection \<open>The event loop\<close>

datatype event =
    OpenFolder string   \<comment> \<open>File/Open; the directory chosen in the dialog, \<open>''''\<close> if cancelled\<close>
  | SelectRow "nat option"   \<comment> \<open>the user selects a row, or clears the selection\<close>
  | PlayClicked
  | PreviousClicked
  | NextClicked
  | SliderMoved int   \<comment> \<open>the user drags the volume slider to a value\<close>
  | TimerTick int   \<comment> \<open>the one-second timer; the mixer's \<open>get_pos()\<close> at that moment\<close>
  | TrackEnded   \<comment> \<open>the mixer reaches the end of the music by itself\<close>

text \<open>
  The connections of \<open>__init__\<close>: the buttons, the slider's \<open>valueChanged\<close>, the menu
  action and the timer. Qt ignores a click on a row that does not exist and emits
  \<open>valueChanged\<close> only when the clamped slider value changes.
\<close>

definition handle :: "world \<Rightarrow> event \<Rightarrow> player \<Rightarrow> py_exc + player" where
  "handle w ev s =
     (case ev of
        OpenFolder d \<Rightarrow> open_folder w d s
      | SelectRow None \<Rightarrow> Inr (s\<lparr>selection := None\<rparr>)
      | SelectRow (Some i) \<Rightarrow> Inr (if i < length (tree s) then s\<lparr>selection := Some i\<rparr> else s)
      | PlayClicked \<Rightarrow> toggle_play w s
      | PreviousClicked \<Rightarrow> play_previous w s
      | NextClicked \<Rightarrow> play_next w s
      | SliderMoved v \<Rightarrow>
          (let v' = slider_bound v
           in if v' = slider s then Inr s else set_volume w v' (s\<lparr>slider := v'\<rparr>))
      | TimerTick pos_ms \<Rightarrow> update_progress pos_ms s
      | TrackEnded \<Rightarrow> Inr (s\<lparr>music := mixer_track_end (music s)\<rparr>))"

text \<open>\<open>app.exec()\<close>: the events in the order the loop dispatches them.\<close>

fun run :: "world \<Rightarrow> event list \<Rightarrow> player \<Rightarrow> py_exc + player" where
  "run w [] s = Inr s"
| "run w (ev # evs) s = (case handle w ev s of Inl e \<Rightarrow> Inl e | Inr s' \<Rightarrow> run w evs s')"

text \<open>
  The same loop when the disk may change between events (another program adds, removes or
  retags files): each event is dispatched against the files as they are at that moment.
\<close>

fun run_live :: "(world \<times> event) list \<Rightarrow> player \<Rightarrow> py_exc + player" where
  "run_live [] s = Inr s"
| "run_live ((w, ev) # evs) s = (case handle w ev s of Inl e \<Rightarrow> Inl e | Inr s' \<Rightarrow> run_live evs s')"

text \<open>
  The invariant kept by every event: the selection names an existing row, every row's
  title (and the current song, once set) ends in \<open>.mp3\<close>, the flag is only set with a
  current song, the progress bar is consistent with its range, and slider and mixer
  volume lie within their ranges.
\<close>

definition player_ok :: "player \<Rightarrow> bool" where
  "player_ok s \<longleftrightarrow>
     (\<forall>i. selection s = Some i \<longrightarrow> i < length (tree s)) \<and>
     (\<forall>it \<in> set (tree s). py_endswith (col_title it) ''.mp3'') \<and>
     (current_song s = [] \<or> py_endswith (current_song s) ''.mp3'') \<and>
     (is_playing s \<longrightarrow> current_song s \<noteq> []) \<and>
     pbar_ok (progress s) \<and> pb_min (progress s) = 0 \<and>
     0 \<le> slider s \<and> slider s \<le> 100 \<and>
     0 \<le> mx_volume (music s) \<and> mx_volume (music s) \<le> 1"

text \<open>
  The half of the spec's session invariant that the code keeps: the flag never says
  playing while the mixer is paused, and a mixer that is not stopped has a file loaded.
\<close>

definition mixer_flag_ok :: "player \<Rightarrow> bool" where
  "mixer_flag_ok s \<longleftrightarrow>
     (is_playing s \<longrightarrow> mx_status (music s) \<noteq> Paused) \<and>
     (mx_status (music s) \<noteq> Stopped \<longrightarrow> mx_loaded (music s) \<noteq> None)"

text \<open>The events that neither open a folder nor come from the mixer.\<close>

definition control_event :: "event \<Rightarrow> bool" where
  "control_event ev \<longleftrightarrow> (case ev of OpenFolder _ \<Rightarrow> False | TrackEnded \<Rightarrow> False | _ \<Rightarrow> True)"

subsection \<open>Lemmas\<close>


lemma selected_rows_Some:
  "selected_rows s = i # rs \<longleftrightarrow> selection s = Some i \<and> i < length (tree s) \<and> rs = []"
  by (auto simp: selected_rows_def split: option.splits)

lemma toggle_play_none: "selected_rows s = [] \<Longrightarrow> toggle_play w s = Inr s"
  by (simp add: toggle_play_def)

lemma toggle_play_pause:
  assumes "selected_rows s = i # rs" and "is_playing s"
  shows "toggle_play w s = Inr (s\<lparr>music := snd (mixer_call (playable w) Pause (music s)), is_playing := False\<rparr>)"
  using assms by (simp add: toggle_play_def mixer_call_def Let_def)

lemma toggle_play_resume:
  assumes "selected_rows s = i # rs" and "\<not> is_playing s"
    and "col_title (tree s ! i) = current_song s"
  shows "toggle_play w s = Inr (s\<lparr>music := snd (mixer_call (playable w) Unpause (music s)), is_playing := True\<rparr>)"
  using assms by (simp add: toggle_play_def mixer_call_def Let_def)

lemma toggle_play_start:
  fixes w :: world and s :: player
  assumes "selected_rows s = i # rs" and "\<not> is_playing s"
    and "col_title (tree s ! i) \<noteq> current_song s"
  defines "p \<equiv> item_path (tree s ! i)"
  defines "s1 \<equiv> s\<lparr>current_song := col_title (tree s ! i),
                   music := snd (mixer_call (playable w) (Load p) (music s))\<rparr>"
  defines "s3 \<equiv> s1\<lparr>music := snd (mixer_call (playable w) Play (music s1))\<rparr>"
  shows "toggle_play w s =
    (if \<not> playable w p then Inr (play_failed PygameError s1)
     else case get_song_info (files w p) p of
       Inl e \<Rightarrow> Inr (play_failed e s3)
     | Inr info \<Rightarrow>
         (case sip_int (info_duration info) of
            Inl e \<Rightarrow> Inr (play_failed e (s3\<lparr>song_duration := info_duration info\<rparr>))
          | Inr _ \<Rightarrow> Inr (s3\<lparr>song_duration := info_duration info,
                          progress := pbar_set_range 0 (info_duration info) (progress s3),
                          is_playing := True\<rparr>)))"
  using assms by (auto simp: toggle_play_def mixer_call_def Let_def dest: sip_int_Inr split: sum.split)

text \<open>The four branches of \<open>toggle_play\<close>: no selected row, pause, resume, start.\<close>

lemma toggle_play_split:
  obtains (no_row) "selected_rows s = []"
  | (pause) i rs where "selected_rows s = i # rs" "is_playing s"
  | (resume) i rs where "selected_rows s = i # rs" "\<not> is_playing s"
      "col_title (tree s ! i) = current_song s"
  | (start) i rs where "selected_rows s = i # rs" "\<not> is_playing s"
      "col_title (tree s ! i) \<noteq> current_song s"
  by (cases "selected_rows s") blast+

lemma player_ok_row_title:
  "player_ok s \<Longrightarrow> i < length (tree s) \<Longrightarrow> py_endswith (col_title (tree s ! i)) ''.mp3''"
  by (simp add: player_ok_def)

lemma init_player_ok: "player_ok init_player"
  by (simp add: player_ok_def init_player_def mixer_init_def pbar_ok_def
      pbar_set_range_def pbar_set_value_def pbar_new_def Let_def)

lemma toggle_play_ok:
  assumes ok: "player_ok s" and r: "toggle_play w s = Inr s'"
  shows "player_ok s'"
proof (cases rule: toggle_play_split [of s])
  case no_row
  with r ok show ?thesis by (simp add: toggle_play_none)
next
  case (pause i rs)
  with r ok show ?thesis by (auto simp: toggle_play_pause player_ok_def mixer_call_volume)
next
  case (resume i rs)
  then have "i < length (tree s)" by (simp add: selected_rows_Some)
  with ok have "col_title (tree s ! i) \<noteq> []"
    by (simp add: player_ok_row_title py_endswith_mp3_nonempty)
  with resume have "current_song s \<noteq> []" by simp
  with resume r ok show ?thesis by (auto simp: toggle_play_resume player_ok_def mixer_call_volume)
next
  case (start i rs)
  then have "i < length (tree s)" by (simp add: selected_rows_Some)
  with ok have t: "py_endswith (col_title (tree s ! i)) ''.mp3''" by (rule player_ok_row_title)
  have "player_ok (s\<lparr>current_song := col_title (tree s ! i), music := m\<rparr>)"
    if "mx_volume m = mx_volume (music s)" for m
    using ok t that by (simp add: player_ok_def py_endswith_mp3_nonempty)
  with start r ok t show ?thesis
    by (auto simp: toggle_play_start player_ok_def mixer_call_volume play_failed_def
        pbar_set_range_ok dest: py_endswith_mp3_nonempty split: if_splits sum.splits)
qed

lemma player_ok_select:
  "player_ok s \<Longrightarrow> j < length (tree s) \<Longrightarrow> player_ok (s\<lparr>selection := Some j\<rparr>)"
  by (simp add: player_ok_def)

text \<open>Previous and Next either change nothing or run \<open>toggle_play\<close> on an existing row.\<close>

lemma play_previous_neighbour:
  assumes "play_previous w s = Inr s'"
  shows "s' = s \<or> (\<exists>j < length (tree s). toggle_play w (s\<lparr>selection := Some j\<rparr>) = Inr s')"
proof (cases "selected_rows s")
  case Nil
  with assms show ?thesis by (simp add: play_previous_def)
next
  case (Cons i rs)
  then have "i < length (tree s)" by (simp add: selected_rows_Some)
  with Cons assms show ?thesis
    by (cases "0 < i") (auto simp: play_previous_def intro: exI [of _ "i - 1"])
qed

lemma play_next_neighbour:
  assumes "play_next w s = Inr s'"
  shows "s' = s \<or> (\<exists>j < length (tree s). toggle_play w (s\<lparr>selection := Some j\<rparr>) = Inr s')"
  using assms
  by (auto simp: play_next_def split: list.splits if_splits intro: exI [of _ "Suc _"])

lemma play_previous_ok: "player_ok s \<Longrightarrow> play_previous w s = Inr s' \<Longrightarrow> player_ok s'"
  by (blast dest: play_previous_neighbour intro: toggle_play_ok player_ok_select)

lemma play_next_ok: "player_ok s \<Longrightarrow> play_next w s = Inr s' \<Longrightarrow> player_ok s'"
  by (blast dest: play_next_neighbour intro: toggle_play_ok player_ok_select)

lemma open_folder_ok:
  assumes ok: "player_ok s" and r: "open_folder w d s = Inr s'"
  shows "player_ok s'"
proof (cases "d = []")
  case True
  with ok r show ?thesis by (simp add: open_folder_def)
next
  case False
  with r obtain names items where sc: "scan_folder (files w) d names = Inr items"
    and s': "s' = s\<lparr>folder_path := d, tree := items, selection := None\<rparr>"
    by (auto simp: open_folder_def os_listdir_def Let_def split: sum.splits option.splits)
  from sc have "\<forall>it \<in> set items. py_endswith (col_title it) ''.mp3''"
    by (simp add: scan_folder_rows)
  with ok s' show ?thesis by (simp add: player_ok_def)
qed

lemma set_volume_ok:
  assumes ok: "player_ok s" and v: "0 \<le> v" "v \<le> 100" and r: "set_volume w v s = Inr s'"
  shows "player_ok s'"
proof -
  from r have s': "s' = s\<lparr>music := snd (mixer_call (playable w) (SetVolume (real_of_int v / 100)) (music s))\<rparr>"
    by (simp add: set_volume_def mixer_call_def Let_def)
  from v have "0 \<le> real_of_int v / 100" and "real_of_int v / 100 \<le> 1" by simp_all
  with ok s' show ?thesis by (simp add: player_ok_def mixer_call_volume)
qed

lemma update_progress_Inr:
  "update_progress ms s = Inr s' \<longleftrightarrow>
     (if is_playing s
      then - (2 ^ 31) \<le> ms div 1000 \<and> ms div 1000 < 2 ^ 31 \<and>
           s' = s\<lparr>current_position := ms div 1000,
                  progress := pbar_set_value (ms div 1000) (progress s)\<rparr>
      else s' = s)"
  by (auto simp: update_progress_def Let_def sip_int_def sint_word_of_int_c_int split: if_splits)

lemma update_progress_Inl:
  "update_progress ms s = Inl e \<longleftrightarrow>
     is_playing s \<and> e = OverflowError \<and> \<not> (- (2 ^ 31) \<le> ms div 1000 \<and> ms div 1000 < 2 ^ 31)"
  by (auto simp: update_progress_def Let_def sip_int_def)

lemma update_progress_ok: "player_ok s \<Longrightarrow> update_progress ms s = Inr s' \<Longrightarrow> player_ok s'"
  by (auto simp: update_progress_Inr player_ok_def pbar_set_value_ok split: if_splits)

lemma update_progress_frame:
  "update_progress ms s = Inr s' \<Longrightarrow>
     is_playing s' = is_playing s \<and> current_song s' = current_song s \<and> music s' = music s"
  by (auto simp: update_progress_Inr split: if_splits)

lemma handle_ok:
  assumes ok: "player_ok s" and r: "handle w ev s = Inr s'"
  shows "player_ok s'"
proof (cases ev)
  case (OpenFolder d)
  with ok r show ?thesis by (simp add: handle_def open_folder_ok)
next
  case (SelectRow r)
  with ok r show ?thesis by (auto simp: handle_def player_ok_def split: option.splits if_splits)
next
  case PlayClicked
  with ok r show ?thesis by (simp add: handle_def toggle_play_ok)
next
  case PreviousClicked
  with ok r show ?thesis by (simp add: handle_def play_previous_ok)
next
  case NextClicked
  with ok r show ?thesis by (simp add: handle_def play_next_ok)
next
  case (SliderMoved v)
  have b: "0 \<le> slider_bound v" "slider_bound v \<le> 100" using slider_bound_range by auto
  show ?thesis
  proof (cases "slider_bound v = slider s")
    case True
    with SliderMoved ok r show ?thesis by (simp add: handle_def)
  next
    case False
    with SliderMoved r have "set_volume w (slider_bound v) (s\<lparr>slider := slider_bound v\<rparr>) = Inr s'"
      by (simp add: handle_def Let_def)
    moreover from ok b have "player_ok (s\<lparr>slider := slider_bound v\<rparr>)" by (simp add: player_ok_def)
    ultimately show ?thesis using b by (blast intro: set_volume_ok)
  qed
next
  case (TimerTick ms)
  with ok r show ?thesis by (auto simp: handle_def intro: update_progress_ok)
next
  case TrackEnded
  with ok r show ?thesis by (auto simp: handle_def player_ok_def)
qed

lemma run_ok: "player_ok s \<Longrightarrow> run w evs s = Inr s' \<Longrightarrow> player_ok s'"
proof (induction evs arbitrary: s)
  case Nil
  then show ?case by simp
next
  case (Cons ev evs)
  then obtain s1 where "handle w ev s = Inr s1" and "run w evs s1 = Inr s'"
    by (auto split: sum.splits)
  with Cons show ?case by (blast intro: handle_ok)
qed

lemma run_as_run_live: "run w evs s = run_live (map (Pair w) evs) s"
  by (induction evs arbitrary: s) (simp_all split: sum.split)

lemma selected_rows_valid: "selection s = Some i \<Longrightarrow> i < length (tree s) \<Longrightarrow> selected_rows s = [i]"
  by (simp add: selected_rows_def)

lemma selected_rows_update [simp]:
  "selected_rows (s\<lparr>music := m\<rparr>) = selected_rows s"
  "selected_rows (s\<lparr>is_playing := b\<rparr>) = selected_rows s"
  "selected_rows (s\<lparr>current_song := c\<rparr>) = selected_rows s"
  "selected_rows (s\<lparr>printed := es\<rparr>) = selected_rows s"
  by (simp_all add: selected_rows_def split: option.split)

text \<open>
  C3: \<open>play_previous\<close> on the first row changes nothing: no row is selected
  instead, the mixer receives no call and the playing flag is kept.
\<close>

lemma play_previous_first: "selection s = Some 0 \<Longrightarrow> play_previous w s = Inr s"
  by (simp add: play_previous_def selected_rows_def)

text \<open>
  C4: \<open>play_next\<close> on the last row changes nothing.
\<close>

lemma play_next_last:
  "selection s = Some i \<Longrightarrow> length (tree s) = Suc i \<Longrightarrow> play_next w s = Inr s"
  by (simp add: play_next_def selected_rows_def)

text \<open>
  C2: Two presses of Play on the row whose title is the current song, with no
  selection change between them, pause and resume (or resume and pause): the flag
  returns to its value, the mixer receives exactly \<open>pause\<close> and \<open>unpause\<close> in that
  order (or the reverse) and the loaded file is never reloaded.
\<close>

lemma toggle_play_twice:
  assumes "selection s = Some i" "i < length (tree s)" "col_title (tree s ! i) = current_song s"
  shows "\<exists>s1 s2. toggle_play w s = Inr s1 \<and> toggle_play w s1 = Inr s2 \<and>
    is_playing s1 = (\<not> is_playing s) \<and> is_playing s2 = is_playing s \<and>
    mx_calls (music s2) = mx_calls (music s) @ (if is_playing s then [Pause, Unpause] else [Unpause, Pause]) \<and>
    mx_loaded (music s2) = mx_loaded (music s)"
proof -
  have rows: "selected_rows s = [i]" using assms by (simp add: selected_rows_valid)
  show ?thesis
  proof (cases "is_playing s")
    case True
    let ?s1 = "s\<lparr>music := snd (mixer_call (playable w) Pause (music s)), is_playing := False\<rparr>"
    have "toggle_play w s = Inr ?s1" using rows True by (rule toggle_play_pause)
    moreover have "selected_rows ?s1 = [i]" using rows by simp
    then have "toggle_play w ?s1 = Inr (?s1\<lparr>music := snd (mixer_call (playable w) Unpause (music ?s1)), is_playing := True\<rparr>)"
      by (rule toggle_play_resume) (simp_all add: assms)
    ultimately show ?thesis using True by (simp add: mixer_call_loaded)
  next
    case False
    let ?s1 = "s\<lparr>music := snd (mixer_call (playable w) Unpause (music s)), is_playing := True\<rparr>"
    have "toggle_play w s = Inr ?s1" using rows False assms(3) by (rule toggle_play_resume)
    moreover have "selected_rows ?s1 = [i]" using rows by simp
    then have "toggle_play w ?s1 = Inr (?s1\<lparr>music := snd (mixer_call (playable w) Pause (music ?s1)), is_playing := False\<rparr>)"
      by (rule toggle_play_pause) simp
    ultimately show ?thesis using False by (simp add: mixer_call_loaded)
  qed
qed

text \<open>
  C8: Pressing Next while a song plays selects the next row but pauses the
  current song instead of playing the next one: \<open>play_next\<close> calls \<open>toggle_play\<close>,
  whose playing branch pauses.
\<close>

lemma play_next_while_playing:
  assumes "selection s = Some i" "Suc i < length (tree s)" "is_playing s"
  shows "play_next w s =
    Inr (s\<lparr>selection := Some (Suc i), music := snd (mixer_call (playable w) Pause (music s)),
           is_playing := False\<rparr>)"
proof -
  let ?t = "s\<lparr>selection := Some (Suc i)\<rparr>"
  have "selected_rows ?t = [Suc i]" using assms by (simp add: selected_rows_def)
  then have "toggle_play w ?t = Inr (?t\<lparr>music := snd (mixer_call (playable w) Pause (music ?t)), is_playing := False\<rparr>)"
    using assms by (intro toggle_play_pause) simp_all
  with assms show ?thesis by (simp add: play_next_def selected_rows_def)
qed

text \<open>
  C12: Pressing Next while paused, when the next row has another title, a
  playable file, readable tags and a duration within the C \<open>int\<close> range, loads and plays that file and records its title and
  duration.
\<close>

lemma play_next_starts_next:
  assumes "selection s = Some i" "Suc i < length (tree s)" "\<not> is_playing s"
    and "col_title (tree s ! Suc i) \<noteq> current_song s"
    and "playable w (item_path (tree s ! Suc i))"
    and "get_song_info (files w (item_path (tree s ! Suc i))) (item_path (tree s ! Suc i)) = Inr info"
    and "- (2 ^ 31) \<le> info_duration info" and "info_duration info < 2 ^ 31"
  shows "\<exists>s'. play_next w s = Inr s' \<and> is_playing s' \<and> selection s' = Some (Suc i) \<and>
    current_song s' = col_title (tree s ! Suc i) \<and>
    mx_loaded (music s') = Some (item_path (tree s ! Suc i)) \<and> mx_status (music s') = Playing \<and>
    mx_calls (music s') = mx_calls (music s) @ [Load (item_path (tree s ! Suc i)), Play] \<and>
    song_duration s' = info_duration info"
proof -
  let ?t = "s\<lparr>selection := Some (Suc i)\<rparr>"
  have rows: "selected_rows ?t = [Suc i]" using assms by (simp add: selected_rows_def)
  have "play_next w s = toggle_play w ?t" using assms by (simp add: play_next_def selected_rows_def)
  also have "\<dots> = Inr (?t\<lparr>current_song := col_title (tree s ! Suc i),
      music := snd (mixer_call (playable w) Play (snd (mixer_call (playable w) (Load (item_path (tree s ! Suc i))) (music s)))),
      song_duration := info_duration info,
      progress := pbar_set_range 0 (info_duration info) (progress s), is_playing := True\<rparr>)"
    using toggle_play_start [OF rows] assms by (simp add: sip_int_in_range)
  finally show ?thesis using assms(5) by (simp add: mixer_call_def)
qed

text \<open>
  C11: Pressing Next while paused, when the next row has the same title as the
  current song, only resumes the mixer: the next row's file is not loaded, so the
  previous file goes on playing while the next row is selected.
\<close>

lemma play_next_same_title:
  assumes "selection s = Some i" "Suc i < length (tree s)" "\<not> is_playing s"
    and "col_title (tree s ! Suc i) = current_song s"
  shows "play_next w s =
    Inr (s\<lparr>selection := Some (Suc i), music := snd (mixer_call (playable w) Unpause (music s)),
           is_playing := True\<rparr>)"
proof -
  let ?t = "s\<lparr>selection := Some (Suc i)\<rparr>"
  have rows: "selected_rows ?t = [Suc i]" using assms by (simp add: selected_rows_def)
  have "play_next w s = toggle_play w ?t" using assms by (simp add: play_next_def selected_rows_def)
  also have "\<dots> = Inr (?t\<lparr>music := snd (mixer_call (playable w) Unpause (music ?t)), is_playing := True\<rparr>)"
    using rows assms by (intro toggle_play_resume) simp_all
  finally show ?thesis by simp
qed

text \<open>
  C9: Starting a playable file for which \<open>get_song_info\<close> raises (its tags cannot be
  read, or its size) leaves the music playing while \<open>is_playing\<close> stays false:
  \<open>get_song_info\<close> runs after \<open>play()\<close> and its exception is only printed.
\<close>

lemma toggle_play_untagged:
  assumes "selection s = Some i" "i < length (tree s)" "\<not> is_playing s"
    and "col_title (tree s ! i) \<noteq> current_song s"
    and "playable w (item_path (tree s ! i))"
    and "get_song_info (files w (item_path (tree s ! i))) (item_path (tree s ! i)) = Inl e"
  shows "\<exists>s'. toggle_play w s = Inr s' \<and> \<not> is_playing s' \<and> mx_status (music s') = Playing \<and>
    mx_loaded (music s') = Some (item_path (tree s ! i)) \<and> printed s' = printed s @ [e]"
proof -
  have rows: "selected_rows s = [i]" using assms by (simp add: selected_rows_def)
  with toggle_play_start [where w = w, OF rows assms(3,4)] assms(3,5,6) show ?thesis
    by (simp add: mixer_call_def play_failed_def)
qed

text \<open>
  C10: Pressing Play twice on a file the mixer rejects first prints the error and
  then sets \<open>is_playing\<close> by resuming the mixer, with the rejected file never loaded:
  the flag can be true while the mixer holds another file or none.
\<close>

lemma toggle_play_unplayable_twice:
  assumes "selection s = Some i" "i < length (tree s)" "\<not> is_playing s"
    and "col_title (tree s ! i) \<noteq> current_song s"
    and "\<not> playable w (item_path (tree s ! i))"
  shows "\<exists>s1 s2. toggle_play w s = Inr s1 \<and> toggle_play w s1 = Inr s2 \<and>
    \<not> is_playing s1 \<and> printed s1 = printed s @ [PygameError] \<and>
    is_playing s2 \<and> mx_loaded (music s2) = mx_loaded (music s) \<and>
    mx_calls (music s2) = mx_calls (music s) @ [Load (item_path (tree s ! i)), Unpause]"
proof -
  have rows: "selected_rows s = [i]" using assms by (simp add: selected_rows_def)
  let ?s1 = "play_failed PygameError (s\<lparr>current_song := col_title (tree s ! i),
                   music := snd (mixer_call (playable w) (Load (item_path (tree s ! i))) (music s))\<rparr>)"
  have t1: "toggle_play w s = Inr ?s1"
    using toggle_play_start [OF rows assms(3,4)] assms(5) by simp
  have rows1: "selected_rows ?s1 = [i]" using rows by (simp add: play_failed_def)
  have "toggle_play w ?s1 = Inr (?s1\<lparr>music := snd (mixer_call (playable w) Unpause (music ?s1)), is_playing := True\<rparr>)"
    using rows1 by (rule toggle_play_resume) (simp_all add: play_failed_def assms(3))
  with t1 assms(3,5) show ?thesis by (simp add: play_failed_def mixer_call_def)
qed

text \<open>
  C7: Opening a folder aborts the program exactly when the folder cannot be listed
  (\<open>OSError\<close>) or one of its \<open>.mp3\<close> entries has no readable size (\<open>OSError\<close>) or no
  readable tags (\<open>UnboundLocalError\<close>); the exception is that of the first such entry.
\<close>

lemma open_folder_Inl:
  "d \<noteq> [] \<Longrightarrow> open_folder w d s = Inl e \<longleftrightarrow>
     (case listdir w d of None \<Rightarrow> e = OSError | Some names \<Rightarrow> scan_error (files w) d names = Some e)"
  by (auto simp: open_folder_def os_listdir_def Let_def scan_folder_error [symmetric]
      split: option.split sum.split)

text \<open>
  C15: After a folder is opened, the table has one row per \<open>.mp3\<close> entry of the listing,
  in the listing's order, holding the joined path; the selection is cleared and the
  playback state is untouched.
\<close>

lemma open_folder_rows:
  assumes "d \<noteq> []" and "open_folder w d s = Inr s'"
  shows "\<exists>names. listdir w d = Some names \<and>
    map item_path (tree s') = map (py_join d) (filter (\<lambda>n. py_endswith n ''.mp3'') names)
    \<and> selection s' = None \<and> folder_path s' = d \<and> is_playing s' = is_playing s \<and> music s' = music s"
proof -
  from assms obtain names items where l: "listdir w d = Some names"
    and sc: "scan_folder (files w) d names = Inr items"
    and s': "s' = s\<lparr>folder_path := d, tree := items, selection := None\<rparr>"
    by (auto simp: open_folder_def os_listdir_def Let_def split: sum.splits option.splits)
  with scan_folder_rows [OF sc] show ?thesis by simp
qed

text \<open>
  C6: Opening a folder with no \<open>.mp3\<close> entry empties the table.
\<close>

lemma open_folder_no_mp3:
  assumes "d \<noteq> []" and "listdir w d = Some names" and "\<forall>n \<in> set names. \<not> py_endswith n ''.mp3''"
  shows "open_folder w d s = Inr (s\<lparr>folder_path := d, tree := [], selection := None\<rparr>)"
  using assms by (simp add: open_folder_def os_listdir_def Let_def scan_folder_no_mp3)

lemma toggle_play_tree: "toggle_play w s = Inr s' \<Longrightarrow> tree s' = tree s"
  by (auto simp: toggle_play_def mixer_call_def play_failed_def Let_def
      split: list.splits if_splits option.splits sum.splits prod.splits)

text \<open>Only opening a folder replaces the table, and then by the rows of a scan.\<close>

lemma handle_tree:
  assumes "handle w ev s = Inr s'"
  shows "tree s' = tree s \<or> (\<exists>d names. scan_folder (files w) d names = Inr (tree s'))"
proof (cases ev)
  case (OpenFolder d)
  with assms show ?thesis
    by (auto simp: handle_def open_folder_def os_listdir_def Let_def split: if_splits option.splits sum.splits)
next
  case PlayClicked
  with assms show ?thesis by (simp add: handle_def toggle_play_tree)
next
  case PreviousClicked
  with assms show ?thesis by (auto simp: handle_def dest!: play_previous_neighbour toggle_play_tree)
next
  case NextClicked
  with assms show ?thesis by (auto simp: handle_def dest!: play_next_neighbour toggle_play_tree)
next
  case (SelectRow r)
  with assms show ?thesis by (auto simp: handle_def split: option.splits if_splits)
next
  case (SliderMoved v)
  with assms show ?thesis by (auto simp: handle_def set_volume_def mixer_call_def Let_def split: if_splits)
next
  case (TimerTick ms)
  with assms show ?thesis by (auto simp: handle_def update_progress_Inr split: if_splits)
next
  case TrackEnded
  with assms show ?thesis by (auto simp: handle_def)
qed

lemma open_folder_exc: "open_folder w d s = Inl e \<Longrightarrow> e = OSError \<or> e = UnboundLocalError"
  by (auto simp: open_folder_def os_listdir_def Let_def scan_folder_error
      dest: scan_error_cases split: if_splits option.splits sum.splits)

lemma toggle_play_not_Inl: "toggle_play w s \<noteq> Inl e"
proof (cases "selected_rows s")
  case Nil
  then show ?thesis by (simp add: toggle_play_none)
next
  case (Cons i rs)
  then show ?thesis
    by (cases "is_playing s"; cases "col_title (tree s ! i) = current_song s")
      (simp_all add: toggle_play_pause toggle_play_resume toggle_play_start split: sum.split)
qed

text \<open>
  C14: Only two events can end the program with an uncaught exception: opening a folder,
  with \<open>OSError\<close> or \<open>UnboundLocalError\<close>, and a timer tick while playing whose
  position in seconds lies outside the C \<open>int\<close> range, with \<open>OverflowError\<close>.
  Every other event is handled.
\<close>

theorem handle_Inl:
  "handle w ev s = Inl e \<Longrightarrow>
     (\<exists>d. ev = OpenFolder d) \<and> (e = OSError \<or> e = UnboundLocalError) \<or>
     (\<exists>ms. ev = TimerTick ms \<and> is_playing s \<and> e = OverflowError \<and>
        \<not> (- (2 ^ 31) \<le> ms div 1000 \<and> ms div 1000 < 2 ^ 31))"
  by (cases ev)
    (auto simp: handle_def toggle_play_not_Inl update_progress_Inl
       play_previous_def play_next_def set_volume_def mixer_call_def Let_def
       dest: open_folder_exc split: sum.splits list.splits if_splits option.splits)

text \<open>
  C18: \<open>set_volume(v)\<close> for a slider value \<open>0 \<le> v \<le> 100\<close> sets the mixer to
  \<open>v / 100\<close>, a volume within \<open>0..1\<close>.
\<close>

lemma set_volume_range:
  assumes "0 \<le> v" and "v \<le> 100"
  shows "\<exists>s'. set_volume w v s = Inr s' \<and> mx_volume (music s') = real_of_int v / 100 \<and>
    0 \<le> mx_volume (music s') \<and> mx_volume (music s') \<le> 1"
  using assms by (simp add: set_volume_def mixer_call_def Let_def)

text \<open>
  C19: At a timer tick while playing, the position becomes the whole seconds of
  \<open>get_pos()\<close>, and the bar shows it when it lies within the song's range; while not
  playing a tick changes nothing.
\<close>

lemma update_progress_shows_position:
  assumes "is_playing s" and "pb_min (progress s) \<le> ms div 1000" and "ms div 1000 \<le> pb_max (progress s)"
    and "- (2 ^ 31) \<le> ms div 1000" and "ms div 1000 < 2 ^ 31"
  shows "\<exists>s'. update_progress ms s = Inr s' \<and> current_position s' = ms div 1000 \<and>
    pb_value (progress s') = ms div 1000 \<and>
    update_progress ms (s\<lparr>is_playing := False\<rparr>) = Inr (s\<lparr>is_playing := False\<rparr>)"
  using assms by (simp add: update_progress_Inr pbar_set_value_def)

text \<open>
  C21: After the mixer has finished the selected song by itself, Play presses never start it
  again: whatever their number, the mixer stays stopped with the same file, while
  \<open>is_playing\<close> keeps alternating (the end of a track is never observed).
\<close>

lemma play_presses_after_end:
  assumes "selection s = Some i" "i < length (tree s)" "col_title (tree s ! i) = current_song s"
    and "mx_status (music s) = Stopped"
  shows "\<exists>s'. run w (replicate n PlayClicked) s = Inr s' \<and> mx_status (music s') = Stopped \<and>
    mx_loaded (music s') = mx_loaded (music s) \<and> selection s' = selection s"
  using assms
proof (induction n arbitrary: s)
  case 0
  then show ?case by simp
next
  case (Suc n)
  have rows: "selected_rows s = [i]" using Suc.prems by (simp add: selected_rows_def)
  obtain s1 where t: "toggle_play w s = Inr s1" and st: "mx_status (music s1) = Stopped"
    and ld: "mx_loaded (music s1) = mx_loaded (music s)" and sel: "selection s1 = selection s"
    and tr: "tree s1 = tree s" and cs: "current_song s1 = current_song s"
  proof (cases "is_playing s")
    case True
    show ?thesis
      by (rule that [OF toggle_play_pause [OF rows True]]) (simp_all add: mixer_call_def Suc.prems)
  next
    case False
    show ?thesis
      by (rule that [OF toggle_play_resume [OF rows False Suc.prems(3)]]) (simp_all add: mixer_call_def Suc.prems)
  qed
  then obtain s' where "run w (replicate n PlayClicked) s1 = Inr s' \<and> mx_status (music s') = Stopped \<and>
    mx_loaded (music s') = mx_loaded (music s1) \<and> selection s' = selection s1"
    using Suc.IH [of s1] Suc.prems by auto
  with t ld sel show ?case by (auto simp: handle_def)
qed

text \<open>
  C20: Liveness of Play: when the selected row's file is playable, its tags are readable
  and its duration fits a C \<open>int\<close>, pressing Play once or twice ends with \<open>is_playing\<close> set.
\<close>

lemma play_reaches_playing:
  assumes ok: "player_ok s" and sel: "selection s = Some i" "i < length (tree s)"
    and pl: "playable w (item_path (tree s ! i))"
    and tags: "get_song_info (files w (item_path (tree s ! i))) (item_path (tree s ! i)) = Inr info"
    and dur: "- (2 ^ 31) \<le> info_duration info" "info_duration info < 2 ^ 31"
  shows "\<exists>s'. (run w [PlayClicked] s = Inr s' \<or> run w [PlayClicked, PlayClicked] s = Inr s') \<and> is_playing s'"
proof -
  have rows: "selected_rows s = [i]" using sel by (simp add: selected_rows_def)
  have one: "\<exists>s'. toggle_play w t = Inr s' \<and> is_playing s'"
    if "selected_rows t = [i]" "\<not> is_playing t" "tree t = tree s" for t
  proof (cases "col_title (tree t ! i) = current_song t")
    case True
    with that show ?thesis by (simp add: toggle_play_resume)
  next
    case False
    with that pl tags dur show ?thesis by (simp add: toggle_play_start sip_int_in_range)
  qed
  show ?thesis
  proof (cases "is_playing s")
    case False
    with one [OF rows] show ?thesis by (auto simp: handle_def)
  next
    case True
    let ?s1 = "s\<lparr>music := snd (mixer_call (playable w) Pause (music s)), is_playing := False\<rparr>"
    have t1: "toggle_play w s = Inr ?s1" using rows True by (rule toggle_play_pause)
    from one [of ?s1] rows obtain s2 where "toggle_play w ?s1 = Inr s2" "is_playing s2" by auto
    with t1 show ?thesis by (auto simp: handle_def)
  qed
qed

text \<open>
  C24: A start that the progress bar cannot take: when the selected file plays and its
  duration in seconds is \<open>2^31\<close> or more, \<open>setRange\<close> raises \<open>OverflowError\<close> inside
  the \<open>try\<close>; the error is printed, the music plays on, \<open>is_playing\<close> stays false and the
  bar keeps its old range.
\<close>

lemma toggle_play_huge_duration:
  assumes "selection s = Some i" "i < length (tree s)" "\<not> is_playing s"
    and "col_title (tree s ! i) \<noteq> current_song s"
    and "playable w (item_path (tree s ! i))"
    and "get_song_info (files w (item_path (tree s ! i))) (item_path (tree s ! i)) = Inr info"
    and "2 ^ 31 \<le> info_duration info"
  shows "\<exists>s'. toggle_play w s = Inr s' \<and> \<not> is_playing s' \<and> mx_status (music s') = Playing \<and>
    song_duration s' = info_duration info \<and> progress s' = progress s \<and>
    printed s' = printed s @ [OverflowError]"
proof -
  have rows: "selected_rows s = [i]" using assms by (simp add: selected_rows_def)
  have "sip_int (info_duration info) = Inl OverflowError" using assms(7) by (simp add: sip_int_Inl)
  with toggle_play_start [where w = w, OF rows assms(3,4)] assms(3,5,6) show ?thesis
    by (simp add: mixer_call_def play_failed_def)
qed

lemma mixer_flag_ok_select [simp]: "mixer_flag_ok (s\<lparr>selection := x\<rparr>) = mixer_flag_ok s"
  by (simp add: mixer_flag_ok_def)

lemma toggle_play_flag_ok:
  assumes ok: "mixer_flag_ok s" and r: "toggle_play w s = Inr s'"
  shows "mixer_flag_ok s'"
proof (cases rule: toggle_play_split [of s])
  case no_row
  with r ok show ?thesis by (simp add: toggle_play_none)
next
  case (pause i rs)
  with r ok show ?thesis by (auto simp: toggle_play_pause mixer_flag_ok_def mixer_call_def)
next
  case (resume i rs)
  with r ok show ?thesis
    by (auto simp: toggle_play_resume mixer_flag_ok_def mixer_call_def split: if_splits)
next
  case (start i rs)
  with r ok show ?thesis
    by (auto simp: toggle_play_start mixer_flag_ok_def mixer_call_def play_failed_def
        split: if_splits sum.splits)
qed

lemma handle_flag_ok:
  assumes ok: "mixer_flag_ok s" and r: "handle w ev s = Inr s'"
  shows "mixer_flag_ok s'"
proof (cases ev)
  case PlayClicked
  with ok r show ?thesis by (simp add: handle_def toggle_play_flag_ok)
next
  case PreviousClicked
  with ok r show ?thesis
    by (auto simp: handle_def dest!: play_previous_neighbour) (metis toggle_play_flag_ok mixer_flag_ok_select)
next
  case NextClicked
  with ok r show ?thesis
    by (auto simp: handle_def dest!: play_next_neighbour) (metis toggle_play_flag_ok mixer_flag_ok_select)
next
  case (OpenFolder d)
  with ok r show ?thesis
    by (auto simp: handle_def open_folder_def os_listdir_def Let_def mixer_flag_ok_def
        split: if_splits option.splits sum.splits)
next
  case (SelectRow x)
  with ok r show ?thesis by (auto simp: handle_def mixer_flag_ok_def split: option.splits if_splits)
next
  case (SliderMoved v)
  with ok r show ?thesis
    by (auto simp: handle_def set_volume_def mixer_call_def Let_def mixer_flag_ok_def split: if_splits)
next
  case (TimerTick ms)
  with ok r show ?thesis by (auto simp: handle_def mixer_flag_ok_def dest: update_progress_frame)
next
  case TrackEnded
  with ok r show ?thesis by (auto simp: handle_def mixer_flag_ok_def mixer_track_end_def split: if_splits)
qed

text \<open>
  C27: A song playing when a folder without \<open>.mp3\<close> files is opened cannot be stopped from
  the window: with an empty table, no sequence of clicks, slider moves and timer ticks
  changes the mixer's state or its loaded file (the spec leaves a stale cursor undefined).
\<close>

theorem stuck_playing_after_empty_rescan:
  assumes "tree s = []" and "\<forall>ev \<in> set evs. control_event ev" and "run w evs s = Inr s'"
  shows "mx_status (music s') = mx_status (music s) \<and> mx_loaded (music s') = mx_loaded (music s)"
  using assms
proof (induction evs arbitrary: s)
  case Nil
  then show ?case by simp
next
  case (Cons ev evs)
  then obtain s1 where h: "handle w ev s = Inr s1" and r: "run w evs s1 = Inr s'"
    by (auto split: sum.splits)
  have "tree s1 = [] \<and> mx_status (music s1) = mx_status (music s) \<and> mx_loaded (music s1) = mx_loaded (music s)"
    using Cons.prems h
    by (cases ev) (auto simp: control_event_def handle_def selected_rows_def toggle_play_def play_previous_def
      play_next_def set_volume_def mixer_call_def Let_def update_progress_Inr split: if_splits option.splits)
  with Cons.IH [of s1] Cons.prems r show ?case by simp
qed
end
