(* ===== verification/Session.thy ===== *)
theory Session
  imports Player
begin

text \<open>
  The playback session of the spec (section 4.2) as an abstract machine with the states
  Stopped, Playing and Paused, related to the player of \<open>src/main.py\<close>. The
  abstraction \<open>session_of\<close> reads the state from \<open>is_playing\<close> and
  \<open>current_song\<close>: Stopped until a song has been chosen, then Playing or Paused. The
  reachable player states are an inductive set closed under \<open>handle\<close>; the invariant
  \<open>player_ok\<close> holds on all of them (rule induction), every event is a step of the
  abstract machine, and so Stopped is never entered again once left. The run-level
  results go through \<open>player_step\<close>, one handled event against any disk: a run is a
  path of its reflexive transitive closure, along which the session follows the machine.
  The machine is unlabelled and may stay put, so following it only means that Stopped is
  never re-entered; which branch an event takes is stated per slot in \<open>Player\<close>.
\<close>

datatype session_state = SStopped | SPlaying | SPaused

definition session_of :: "player \<Rightarrow> session_state" where
  "session_of s =
     (if is_playing s then SPlaying else if current_song s = [] then SStopped else SPaused)"

text \<open>
  The spec's transitions, a step that changes nothing, and the one the code adds: a start
  that raises leaves a chosen song and no playback (Stopped to Paused).
\<close>

inductive session_step :: "session_state \<Rightarrow> session_state \<Rightarrow> bool" where
  start: "session_step SStopped SPlaying"
| pause: "session_step SPlaying SPaused"
| resume: "session_step SPaused SPlaying"
| failed_start: "session_step SStopped SPaused"
| stay: "session_step q q"

text \<open>The states reachable from start-up, the disk being free to change between events.\<close>

inductive reachable :: "player \<Rightarrow> bool" where
  init: "reachable init_player"
| step: "reachable s \<Longrightarrow> handle w ev s = Inr s' \<Longrightarrow> reachable s'"

text \<open>One event handled without an uncaught exception, against any disk.\<close>

inductive player_step :: "player \<Rightarrow> player \<Rightarrow> bool" where
  handled: "handle w ev s = Inr s' \<Longrightarrow> player_step s s'"

inductive_cases session_step_to_stopped: "session_step q SStopped"

subsection \<open>Lemmas\<close>

lemma reachable_ok_helper: "reachable s \<Longrightarrow> player_ok s"
proof (induction rule: reachable.induct)
  case init
  show ?case by (rule init_player_ok)
next
  case (step s w ev s')
  then show ?case by (blast intro: handle_ok)
qed

lemma run_live_steps: "run_live wevs s = Inr s' \<Longrightarrow> player_step\<^sup>*\<^sup>* s s'"
proof (induction wevs arbitrary: s)
  case Nil
  then show ?case by simp
next
  case (Cons wev evs)
  obtain w ev where "wev = (w, ev)" by fastforce
  with Cons.prems obtain s1 where "handle w ev s = Inr s1" and "run_live evs s1 = Inr s'"
    by (auto split: sum.splits)
  with Cons.IH show ?case by (blast intro: player_step.handled converse_rtranclp_into_rtranclp)
qed

lemma reachable_steps: "player_step\<^sup>*\<^sup>* s s' \<Longrightarrow> reachable s \<Longrightarrow> reachable s'"
  by (induction rule: rtranclp_induct) (auto elim: player_step.cases intro: reachable.step)

lemma run_live_reachable: "reachable s \<Longrightarrow> run_live wevs s = Inr s' \<Longrightarrow> reachable s'"
  by (blast intro: reachable_steps run_live_steps)

lemma run_reachable: "reachable s \<Longrightarrow> run w evs s = Inr s' \<Longrightarrow> reachable s'"
  by (simp add: run_as_run_live run_live_reachable)

lemma session_of_song:
  "current_song s \<noteq> [] \<Longrightarrow> session_of s \<noteq> SStopped"
  by (simp add: session_of_def)

lemma session_step_from_song:
  assumes "current_song s \<noteq> []" and "current_song s' \<noteq> []"
  shows "session_step (session_of s) (session_of s')"
  using assms by (auto simp: session_of_def intro: session_step.intros)

lemma session_step_playing:
  "is_playing s' \<Longrightarrow> session_step (session_of s) (session_of s')"
  by (cases "session_of s") (auto simp: session_of_def intro: session_step.intros split: if_splits)

lemma session_step_same:
  "is_playing s' = is_playing s \<Longrightarrow> current_song s' = current_song s \<Longrightarrow>
     session_step (session_of s) (session_of s')"
  by (simp add: session_of_def session_step.stay)

lemma session_step_to_song:
  "\<not> is_playing s' \<Longrightarrow> current_song s' \<noteq> [] \<Longrightarrow> \<not> (is_playing s \<and> current_song s = []) \<Longrightarrow>
     session_step (session_of s) (session_of s')"
  by (cases "session_of s") (auto simp: session_of_def intro: session_step.intros split: if_splits)

lemma toggle_play_session:
  assumes ok: "player_ok s" and r: "toggle_play w s = Inr s'"
  shows "session_step (session_of s) (session_of s')"
proof (cases rule: toggle_play_split [of s])
  case no_row
  with r show ?thesis by (simp add: toggle_play_none session_step.stay)
next
  case (pause i rs)
  with ok have "current_song s \<noteq> []" by (simp add: player_ok_def)
  with pause r show ?thesis by (auto simp: toggle_play_pause intro!: session_step_from_song)
next
  case (resume i rs)
  with r show ?thesis by (auto simp: toggle_play_resume intro: session_step_playing)
next
  case (start i rs)
  then have "i < length (tree s)" by (simp add: selected_rows_Some)
  with ok have "col_title (tree s ! i) \<noteq> []"
    by (simp add: player_ok_row_title py_endswith_mp3_nonempty)
  moreover from ok have "is_playing s \<longrightarrow> current_song s \<noteq> []" by (simp add: player_ok_def)
  ultimately show ?thesis using start r
    by (auto simp: toggle_play_start play_failed_def intro: session_step_playing session_step_to_song
        split: if_splits sum.splits)
qed

lemma toggle_play_select_session:
  assumes "player_ok s" and "j < length (tree s)"
    and "toggle_play w (s\<lparr>selection := Some j\<rparr>) = Inr s'"
  shows "session_step (session_of s) (session_of s')"
proof -
  have "session_step (session_of (s\<lparr>selection := Some j\<rparr>)) (session_of s')"
    using assms by (blast intro: toggle_play_session player_ok_select)
  moreover have "session_of (s\<lparr>selection := Some j\<rparr>) = session_of s"
    by (simp add: session_of_def cong: if_cong)
  ultimately show ?thesis by simp
qed

lemma play_previous_session:
  "player_ok s \<Longrightarrow> play_previous w s = Inr s' \<Longrightarrow> session_step (session_of s) (session_of s')"
  by (blast dest: play_previous_neighbour intro: toggle_play_select_session session_step.stay)

lemma play_next_session:
  "player_ok s \<Longrightarrow> play_next w s = Inr s' \<Longrightarrow> session_step (session_of s) (session_of s')"
  by (blast dest: play_next_neighbour intro: toggle_play_select_session session_step.stay)

text \<open>One event moves the abstract session by one step of the machine.\<close>

lemma handle_session_step:
  assumes "player_ok s" and "handle w ev s = Inr s'"
  shows "session_step (session_of s) (session_of s')"
proof (cases ev)
  case PlayClicked
  with assms show ?thesis by (simp add: handle_def toggle_play_session)
next
  case PreviousClicked
  with assms show ?thesis by (simp add: handle_def play_previous_session)
next
  case NextClicked
  with assms show ?thesis by (simp add: handle_def play_next_session)
next
  case (OpenFolder d)
  with assms show ?thesis
    by (auto simp: handle_def open_folder_def Let_def intro: session_step_same
        split: sum.splits if_splits)
next
  case (SelectRow r)
  with assms show ?thesis
    by (auto simp: handle_def intro: session_step_same session_step.stay split: option.splits if_splits)
next
  case (SliderMoved v)
  with assms show ?thesis
    by (auto simp: handle_def set_volume_def mixer_call_def Let_def
        intro: session_step_same session_step.stay split: if_splits)
next
  case (TimerTick ms)
  with assms have "update_progress ms s = Inr s'" by (simp add: handle_def)
  then have "session_of s' = session_of s" by (simp add: session_of_def update_progress_frame)
  then show ?thesis by (simp add: session_step.stay)
next
  case TrackEnded
  with assms have "session_of s' = session_of s"
    by (auto simp: handle_def session_of_def)
  then show ?thesis by (simp add: session_step.stay)
qed

lemma session_step_not_stopped:
  "session_step q q' \<Longrightarrow> q \<noteq> SStopped \<Longrightarrow> q' \<noteq> SStopped"
  by (auto elim: session_step_to_stopped)

lemma session_steps_not_stopped:
  "session_step\<^sup>*\<^sup>* q q' \<Longrightarrow> q \<noteq> SStopped \<Longrightarrow> q' \<noteq> SStopped"
  by (induction rule: rtranclp_induct) (auto dest: session_step_not_stopped)

text \<open>Along handled events from a reachable state, the session follows the machine.\<close>

lemma steps_session:
  "player_step\<^sup>*\<^sup>* s s' \<Longrightarrow> reachable s \<Longrightarrow> session_step\<^sup>*\<^sup>* (session_of s) (session_of s')"
proof (induction rule: rtranclp_induct)
  case base
  then show ?case by simp
next
  case (step s1 s2)
  from step.hyps(1) step.prems have "reachable s1" by (rule reachable_steps)
  then have ok: "player_ok s1" by (rule reachable_ok_helper)
  from step.hyps(2) obtain w ev where "handle w ev s1 = Inr s2" by (cases rule: player_step.cases)
  with ok have "session_step (session_of s1) (session_of s2)" by (rule handle_session_step)
  moreover from step.prems have "session_step\<^sup>*\<^sup>* (session_of s) (session_of s1)" by (rule step.IH)
  ultimately show ?case by (simp add: rtranclp.rtrancl_into_rtrancl)
qed

text \<open>
  C1: Every state reached from start-up, by any sequence of events the program survives and
  whatever changes the disk undergoes between them, satisfies the invariant \<open>player_ok\<close>.
\<close>

theorem run_player_ok:
  "run_live wevs init_player = Inr s \<Longrightarrow> player_ok s"
  by (blast intro: reachable_ok_helper run_live_reachable reachable.init)

text \<open>
  C13: Once a song has been chosen the session never returns to Stopped: no run from a
  reachable state that is not Stopped ends in Stopped (there is no stop control).
\<close>

theorem run_never_stopped:
  assumes "reachable s" and "run_live wevs s = Inr s'" and "session_of s \<noteq> SStopped"
  shows "session_of s' \<noteq> SStopped"
proof -
  from assms(2) have "player_step\<^sup>*\<^sup>* s s'" by (rule run_live_steps)
  then have "session_step\<^sup>*\<^sup>* (session_of s) (session_of s')" using assms(1) by (rule steps_session)
  then show ?thesis using assms(3) by (rule session_steps_not_stopped)
qed

text \<open>
  C25: Type invariant of the table: in every state reachable from start-up, whatever the
  disk does between events, every row plays an \<open>.mp3\<close> path and its duration and size
  columns are well-formed texts that read back as a duration and a size.
\<close>

theorem reachable_rows_ok:
  assumes "reachable s"
  shows "\<forall>it \<in> set (tree s). row_ok it"
  using assms
proof (induction rule: reachable.induct)
  case init
  show ?case by (simp add: init_player_def)
next
  case (step s w ev s')
  from step.hyps(2) show ?case
  proof (rule handle_tree [THEN disjE])
    assume "tree s' = tree s"
    with step.IH show ?thesis by simp
  next
    assume "\<exists>d names. scan_folder (files w) d names = Inr (tree s')"
    then show ?thesis by (blast dest: scan_folder_rows_ok)
  qed
qed

text \<open>
  C26: The flag and the mixer agree as far as the code allows: in every reachable state,
  whatever the disk does, \<open>is_playing\<close> is never set while the mixer is paused, and the
  mixer plays or pauses only a loaded file.
\<close>

theorem reachable_mixer_flag_ok:
  "reachable s \<Longrightarrow> mixer_flag_ok s"
proof (induction rule: reachable.induct)
  case init
  show ?case by (simp add: mixer_flag_ok_def init_player_def mixer_init_def)
next
  case (step s w ev s')
  then show ?case by (blast intro: handle_flag_ok)
qed

end
