(* ===== verification/Examples.thy ===== *)
theory Examples
  imports Session
begin

text \<open>
  Concrete inputs on which the properties of the other theories are applied, so that
  their hypotheses are seen to hold: a folder as in the spec's example (section 8), the
  same folder with both files tagged, a file the mixer rejects, a dangling link, a file
  claiming a length beyond the C \<open>int\<close> range, and small player states.
  Every witness below instantiates one property and evaluates it by \<open>simp\<close>.
\<close>

subsection \<open>Files, folders and states\<close>

definition tagged_file :: "id3_tag \<Rightarrow> real \<Rightarrow> nat \<Rightarrow> file_info" where
  "tagged_file tag secs bytes =
     \<lparr>fi_size = Some bytes, fi_eyed3 = Some \<lparr>af_tag = Some tag, af_info_secs = Some secs\<rparr>,
      fi_playable = True\<rparr>"

definition untagged_file :: "nat \<Rightarrow> file_info" where
  "untagged_file bytes =
     \<lparr>fi_size = Some bytes, fi_eyed3 = Some \<lparr>af_tag = None, af_info_secs = Some 60\<rparr>,
      fi_playable = True\<rparr>"

text \<open>The spec's example: \<open>A-One.mp3\<close> tagged, 125 s, 4 MiB; \<open>Two.mp3\<close> without tag.\<close>

definition spec_world :: world where
  "spec_world =
     \<lparr>listdir = (\<lambda>d. Some [''A-One.mp3'', ''Two.mp3'']),
      files = (\<lambda>p. if p = ''/music/A-One.mp3''
                   then tagged_file \<lparr>tag_artist = Some ''A'', tag_title = Some ''One''\<rparr> 125 (4 * 1048576)
                   else untagged_file (2 * 1048576))\<rparr>"

text \<open>The same folder with a tag on \<open>Two.mp3\<close> that names no artist or title, and a picture.\<close>

definition tagged_world :: world where
  "tagged_world =
     \<lparr>listdir = (\<lambda>d. Some [''A-One.mp3'', ''Two.mp3'', ''cover.jpg'']),
      files = (\<lambda>p. if p = ''/music/A-One.mp3''
                   then tagged_file \<lparr>tag_artist = Some ''A'', tag_title = Some ''One''\<rparr> 125 (4 * 1048576)
                   else tagged_file \<lparr>tag_artist = None, tag_title = None\<rparr> 60 (2 * 1048576))\<rparr>"

text \<open>A folder whose only file is tagged but rejected by the mixer's decoder.\<close>

definition reject_world :: world where
  "reject_world =
     \<lparr>listdir = (\<lambda>d. Some [''Bad.mp3'']),
      files = (\<lambda>p. (tagged_file \<lparr>tag_artist = None, tag_title = None\<rparr> 10 1000)\<lparr>fi_playable := False\<rparr>)\<rparr>"

text \<open>A folder with pictures only.\<close>

definition pictures_world :: world where
  "pictures_world = \<lparr>listdir = (\<lambda>d. Some [''cover.jpg'', ''back.png'']), files = (\<lambda>p. untagged_file 0)\<rparr>"

text \<open>A folder with a dangling link \<open>Gone.mp3\<close>: listed, but it cannot be stat'ed.\<close>

definition broken_world :: world where
  "broken_world =
     \<lparr>listdir = (\<lambda>d. Some [''Gone.mp3'']),
      files = (\<lambda>p. \<lparr>fi_size = None, fi_eyed3 = None, fi_playable = False\<rparr>)\<rparr>"

text \<open>A folder whose one file claims a length of \<open>2^31\<close> seconds.\<close>

definition huge_world :: world where
  "huge_world =
     \<lparr>listdir = (\<lambda>d. Some [''Long.mp3'']),
      files = (\<lambda>p. tagged_file \<lparr>tag_artist = None, tag_title = None\<rparr> 2147483648 1000)\<rparr>"

definition row_one :: item where
  "row_one = \<lparr>col_artist = ''A'', col_title = ''One.mp3'', col_duration = ''2:05'',
              col_size = ''4 MB'', item_path = ''/music/A-One.mp3''\<rparr>"

definition row_two :: item where
  "row_two = \<lparr>col_artist = ''Unknown Artist'', col_title = ''Two.mp3'', col_duration = ''1:00'',
              col_size = ''2 MB'', item_path = ''/music/Two.mp3''\<rparr>"

text \<open>The table of \<open>tagged_world\<close>, first row selected.\<close>

definition table_state :: player where
  "table_state = init_player\<lparr>tree := [row_one, row_two], selection := Some 0\<rparr>"

definition playing_state :: player where
  "playing_state = table_state\<lparr>is_playing := True, current_song := ''One.mp3''\<rparr>"

definition paused_state :: player where
  "paused_state = table_state\<lparr>current_song := ''One.mp3''\<rparr>"

text \<open>The player after opening \<open>tagged_world\<close>'s folder, selecting the first row and
  pressing Play.\<close>

definition started_state :: player where
  "started_state = playing_state\<lparr>song_duration := 125, folder_path := ''/music'',
     progress := \<lparr>pb_min = 0, pb_max = 125, pb_value = 0\<rparr>,
     music := \<lparr>mx_loaded = Some ''/music/A-One.mp3'', mx_status = Playing, mx_volume = 1,
                mx_calls = [Load ''/music/A-One.mp3'', Play]\<rparr>\<rparr>"

definition demo_events :: "event list" where
  "demo_events = [OpenFolder ''/music'', SelectRow (Some 0), PlayClicked]"

lemmas world_defs = spec_world_def tagged_world_def reject_world_def pictures_world_def
  broken_world_def huge_world_def
  tagged_file_def untagged_file_def
lemmas state_defs = table_state_def playing_state_def paused_state_def row_one_def row_two_def
  started_state_def
  init_player_def mixer_init_def pbar_new_def pbar_set_range_def pbar_set_value_def
lemmas eval_defs = split_artist_title_def get_song_info_def read_tags_def format_duration_def
  format_size_def py_str_or_def py_defs nat_digits.simps Let_def playable_def mixer_call_def
  handle_def open_folder_def toggle_play_def selected_rows_def play_failed_def
  os_listdir_def getsize_def sip_int_def sint_word_of_int_c_int update_progress_def

lemma run_demo_events: "run tagged_world demo_events init_player = Inr started_state"
  by (simp add: demo_events_def world_defs eval_defs state_defs)


subsection \<open>Witnesses\<close>

theorem run_player_ok_witness:
  "\<exists>s. run_live (map (Pair tagged_world) demo_events) init_player = Inr s \<and> player_ok s \<and> is_playing s"
  using run_player_ok [of "map (Pair tagged_world) demo_events"]
  by (simp add: demo_events_def world_defs eval_defs state_defs)

theorem toggle_play_twice_witness:
  "\<exists>s1 s2. toggle_play tagged_world playing_state = Inr s1 \<and> toggle_play tagged_world s1 = Inr s2 \<and>
     \<not> is_playing s1 \<and> is_playing s2 \<and> mx_calls (music s2) = [Pause, Unpause]"
  using toggle_play_twice [of playing_state 0 tagged_world]
  by (simp add: state_defs) blast

theorem play_previous_first_witness: "play_previous tagged_world table_state = Inr table_state"
  using play_previous_first [of table_state tagged_world] by (simp add: table_state_def)

theorem play_next_last_witness:
  "play_next tagged_world (table_state\<lparr>selection := Some 1\<rparr>) = Inr (table_state\<lparr>selection := Some 1\<rparr>)"
  using play_next_last [of "table_state\<lparr>selection := Some 1\<rparr>" 1 tagged_world] by (simp add: table_state_def)

theorem split_artist_title_spec_witness:
  "split_artist_title ''A-One.mp3'' = Inr (''A'', ''One.mp3'') \<and>
   split_artist_title ''Two.mp3'' = Inr (''Unknown Artist'', ''Two.mp3'')"
  using split_artist_title_spec [of "''A-One.mp3''" "''A''" "''One.mp3''"]
    split_artist_title_spec [of "''Two.mp3''" "''Unknown Artist''" "''Two.mp3''"]
  by simp

theorem open_folder_no_mp3_witness:
  "open_folder pictures_world ''/pics'' init_player =
     Inr (init_player\<lparr>folder_path := ''/pics'', tree := [], selection := None\<rparr>)"
  using open_folder_no_mp3 [of "''/pics''" pictures_world "[''cover.jpg'', ''back.png'']" init_player]
  by (simp add: pictures_world_def py_defs)

theorem open_folder_Inl_witness:
  "open_folder spec_world ''/music'' init_player = Inl UnboundLocalError \<and>
   open_folder broken_world ''/music'' init_player = Inl OSError \<and>
   open_folder (spec_world\<lparr>listdir := (\<lambda>d. None)\<rparr>) ''/music'' init_player = Inl OSError"
  using open_folder_Inl [of "''/music''" spec_world init_player UnboundLocalError]
    open_folder_Inl [of "''/music''" broken_world init_player OSError]
    open_folder_Inl [of "''/music''" "spec_world\<lparr>listdir := (\<lambda>d. None)\<rparr>" init_player OSError]
  by (simp add: world_defs scan_error_def entry_error_def tags_unreadable_def read_tags_def py_defs)

theorem play_next_while_playing_witness:
  "\<exists>s'. play_next tagged_world playing_state = Inr s' \<and> \<not> is_playing s' \<and>
     selection s' = Some 1 \<and> mx_calls (music s') = [Pause]"
  using play_next_while_playing [of playing_state 0 tagged_world]
  by (simp add: state_defs mixer_call_def)

theorem toggle_play_untagged_witness:
  "\<exists>s'. toggle_play spec_world (table_state\<lparr>tree := [row_two], selection := Some 0\<rparr>) = Inr s' \<and>
     \<not> is_playing s' \<and> mx_status (music s') = Playing \<and> printed s' = [UnboundLocalError]"
  using toggle_play_untagged [of "table_state\<lparr>tree := [row_two], selection := Some 0\<rparr>" 0 spec_world UnboundLocalError]
  by (simp add: state_defs world_defs get_song_info_def getsize_def read_tags_def playable_def) blast

theorem toggle_play_unplayable_twice_witness:
  "\<exists>s1 s2. toggle_play reject_world table_state = Inr s1 \<and> toggle_play reject_world s1 = Inr s2 \<and>
     printed s1 = [PygameError] \<and> is_playing s2 \<and> mx_loaded (music s2) = None"
  using toggle_play_unplayable_twice [of table_state 0 reject_world]
  by (simp add: state_defs world_defs playable_def) blast

theorem play_next_same_title_witness:
  "play_next tagged_world (paused_state\<lparr>tree := [row_one, row_two\<lparr>col_title := ''One.mp3''\<rparr>]\<rparr>) =
     Inr (paused_state\<lparr>tree := [row_one, row_two\<lparr>col_title := ''One.mp3''\<rparr>], selection := Some 1,
       music := (music paused_state)\<lparr>mx_calls := [Unpause]\<rparr>, is_playing := True\<rparr>)"
  using play_next_same_title [of "paused_state\<lparr>tree := [row_one, row_two\<lparr>col_title := ''One.mp3''\<rparr>]\<rparr>" 0 tagged_world]
  by (simp add: state_defs mixer_call_def)

theorem play_next_starts_next_witness:
  "\<exists>s'. play_next tagged_world paused_state = Inr s' \<and> is_playing s' \<and>
     current_song s' = ''Two.mp3'' \<and> mx_calls (music s') = [Load ''/music/Two.mp3'', Play] \<and>
     song_duration s' = 60"
  using play_next_starts_next [of paused_state 0 tagged_world]
  by (simp add: state_defs world_defs playable_def get_song_info_def getsize_def read_tags_def py_defs) blast

theorem run_never_stopped_witness:
  "\<exists>s'. run_live [(tagged_world, PlayClicked), (tagged_world, NextClicked), (pictures_world, OpenFolder ''/music'')]
       started_state = Inr s' \<and>
     session_of started_state = SPlaying \<and> session_of s' \<noteq> SStopped"
proof -
  have reach: "reachable started_state"
    by (rule run_reachable [OF reachable.init run_demo_events])
  obtain s' where r': "run_live [(tagged_world, PlayClicked), (tagged_world, NextClicked), (pictures_world, OpenFolder ''/music'')]
       started_state = Inr s'"
    by (simp add: world_defs eval_defs state_defs play_next_def)
  have "session_of started_state = SPlaying" by (simp add: state_defs session_of_def)
  moreover then have "session_of s' \<noteq> SStopped" using run_never_stopped [OF reach r'] by simp
  ultimately show ?thesis using r' by blast
qed

theorem handle_Inl_witness:
  "handle spec_world (OpenFolder ''/music'') init_player = Inl UnboundLocalError \<and>
   handle tagged_world (TimerTick (2 ^ 31 * 1000)) playing_state = Inl OverflowError"
proof -
  have h: "handle spec_world (OpenFolder ''/music'') init_player = Inl UnboundLocalError"
    by (simp add: world_defs eval_defs)
  have h2: "handle tagged_world (TimerTick (2 ^ 31 * 1000)) playing_state = Inl OverflowError"
    by (simp add: eval_defs state_defs)
  from handle_Inl [OF h] handle_Inl [OF h2] h h2 show ?thesis by simp
qed

theorem open_folder_rows_witness:
  "\<exists>s'. open_folder tagged_world ''/music'' init_player = Inr s' \<and>
     map item_path (tree s') = [''/music/A-One.mp3'', ''/music/Two.mp3''] \<and> selection s' = None"
  using open_folder_rows [of "''/music''" tagged_world init_player]
  by (simp add: world_defs eval_defs)

theorem parse_format_duration_witness:
  "format_duration 125 = ''2:05'' \<and> parse_duration ''2:05'' = Some 125"
  using parse_format_duration [of 125] by (simp add: format_duration_def py_defs nat_digits.simps)

theorem get_song_info_never_na_witness:
  "get_song_info (files tagged_world ''/music/A-One.mp3'') ''/music/A-One.mp3'' =
     Inr (''A'', ''One'', ''2:05'', ''4 MB'', 125) \<and> ''2:05'' \<noteq> ''N/A''"
  using get_song_info_never_na [of "files tagged_world ''/music/A-One.mp3''" "''/music/A-One.mp3''"
      "(''A'', ''One'', ''2:05'', ''4 MB'', 125)"]
  by (simp add: world_defs eval_defs)

theorem set_volume_range_witness:
  "\<exists>s'. set_volume tagged_world 50 init_player = Inr s' \<and> mx_volume (music s') = 1 / 2"
  using set_volume_range [of 50 tagged_world init_player] by simp blast

theorem update_progress_shows_position_witness:
  "\<exists>s'. update_progress 3500 playing_state = Inr s' \<and> current_position s' = 3 \<and> pb_value (progress s') = 3"
  using update_progress_shows_position [of playing_state 3500]
  by (simp add: state_defs) blast

theorem format_size_bounds_witness:
  "parse_nat (takeWhile (\<lambda>c. c \<noteq> CHR '' '') (format_size 4194309)) = Some 4 \<and> format_size 4194309 = ''4 MB''"
proof -
  obtain k where "parse_nat (takeWhile (\<lambda>c. c \<noteq> CHR '' '') (format_size 4194309)) = Some k"
    and "k * 1048576 \<le> 4194309" and "4194309 < (k + 1) * 1048576"
    using format_size_bounds [of 4194309] by blast
  moreover from this have "k = 4" by simp
  ultimately show ?thesis by (simp add: format_size_def py_defs nat_digits.simps)
qed

theorem play_presses_after_end_witness:
  "\<exists>s'. run tagged_world (replicate 3 PlayClicked) (started_state\<lparr>music := mixer_track_end (music started_state)\<rparr>) = Inr s' \<and>
     mx_status (music s') = Stopped \<and> mx_loaded (music s') = Some ''/music/A-One.mp3''"
  using play_presses_after_end [of "started_state\<lparr>music := mixer_track_end (music started_state)\<rparr>" 0 tagged_world 3]
  by (simp add: state_defs mixer_track_end_def) blast

theorem play_reaches_playing_witness:
  "\<exists>s'. (run tagged_world [PlayClicked] paused_state = Inr s' \<or>
     run tagged_world [PlayClicked, PlayClicked] paused_state = Inr s') \<and> is_playing s'"
proof -
  have ok: "player_ok paused_state"
    by (simp add: player_ok_def state_defs pbar_ok_def py_endswith_def)
  show ?thesis
    using play_reaches_playing [OF ok, of 0 tagged_world]
    by (simp add: state_defs world_defs playable_def get_song_info_def getsize_def read_tags_def py_defs)
qed

theorem scan_folder_refines_spec_witness:
  "scan_folder (files tagged_world) ''/music'' [''A-One.mp3'', ''Two.mp3'', ''cover.jpg''] =
     Inr [spec_row (files tagged_world) ''/music'' ''A-One.mp3'', spec_row (files tagged_world) ''/music'' ''Two.mp3''] \<and>
   scan_folder (files spec_world) ''/music'' [''A-One.mp3'', ''Two.mp3''] = Inl UnboundLocalError"
  using scan_folder_refines_spec [of "files tagged_world" "''/music''" "[''A-One.mp3'', ''Two.mp3'', ''cover.jpg'']"]
    scan_folder_refines_spec [of "files spec_world" "''/music''" "[''A-One.mp3'', ''Two.mp3'']"]
  by (simp add: world_defs scan_error_def entry_error_def tags_unreadable_def read_tags_def py_defs)

theorem toggle_play_huge_duration_witness:
  "\<exists>s'. toggle_play huge_world
       (init_player\<lparr>tree := [row_one\<lparr>col_title := ''Long.mp3'', item_path := ''/music/Long.mp3''\<rparr>],
                    selection := Some 0\<rparr>) = Inr s' \<and>
     \<not> is_playing s' \<and> mx_status (music s') = Playing \<and> printed s' = [OverflowError]"
  using toggle_play_huge_duration
    [of "init_player\<lparr>tree := [row_one\<lparr>col_title := ''Long.mp3'', item_path := ''/music/Long.mp3''\<rparr>],
                    selection := Some 0\<rparr>" 0 huge_world
        "(''Unknown Artist'', ''Long.mp3'', format_duration 2147483648, ''0 MB'', 2147483648)"]
  by (simp add: world_defs init_player_def playable_def get_song_info_def getsize_def read_tags_def
      py_str_or_def py_defs format_size_def nat_digits.simps) blast

theorem reachable_rows_ok_witness: "row_ok row_one \<and> row_ok row_two"
proof -
  have "reachable started_state" by (rule run_reachable [OF reachable.init run_demo_events])
  from reachable_rows_ok [OF this] show ?thesis by (simp add: state_defs)
qed

theorem reachable_mixer_flag_ok_witness: "mixer_flag_ok started_state \<and> is_playing started_state"
proof -
  have "reachable started_state" by (rule run_reachable [OF reachable.init run_demo_events])
  from reachable_mixer_flag_ok [OF this] show ?thesis by (simp add: state_defs)
qed

theorem stuck_playing_after_empty_rescan_witness:
  "\<exists>s'. run tagged_world [PlayClicked, NextClicked, PreviousClicked, SliderMoved 0, TimerTick 5000]
       (started_state\<lparr>tree := [], selection := None\<rparr>) = Inr s' \<and>
     mx_status (music s') = Playing \<and> mx_loaded (music s') = Some ''/music/A-One.mp3''"
proof -
  obtain s' where r: "run tagged_world [PlayClicked, NextClicked, PreviousClicked, SliderMoved 0, TimerTick 5000]
       (started_state\<lparr>tree := [], selection := None\<rparr>) = Inr s'"
    by (simp add: eval_defs state_defs play_previous_def play_next_def set_volume_def slider_bound_def)
  moreover have "mx_status (music s') = Playing \<and> mx_loaded (music s') = Some ''/music/A-One.mp3''"
    using stuck_playing_after_empty_rescan [OF _ _ r] by (simp add: control_event_def state_defs)
  ultimately show ?thesis by blast
qed

end
