(* ===== verification/Spec2Isabelle.thy ===== *)
theory Spec2Isabelle
  imports Examples
begin

text \<open>
  \<^bold>\<open>A verified model of the MP3 player \<open>src/main.py\<close>.\<close>

  \<^bold>\<open>The program.\<close> One Python file: a PyQt6 window class \<open>Mp3Player\<close> whose slots
  react to the user and to a one-second timer, over three libraries: eyed3 (tag reading),
  \<open>pygame.mixer.music\<close> (decoding and playback) and Qt (table, buttons, slider,
  progress bar, folder dialog), and the file system (\<open>os.listdir\<close>, \<open>os.path\<close>). Its parts are the library scanner (\<open>open_folder\<close>,
  \<open>split_artist_title\<close>, \<open>get_song_info\<close>) that fills the table from a folder, and the
  playback session (\<open>toggle_play\<close>, \<open>play_previous\<close>, \<open>play_next\<close>,
  \<open>set_volume\<close>, \<open>update_progress\<close>) that drives the mixer from the selected row and
  the attributes \<open>is_playing\<close> and \<open>current_song\<close>. Qt's event loop runs one slot at
  a time; an exception that leaves a slot aborts the program.

  \<^bold>\<open>The theories.\<close>
  \<^item> \<open>Prelude\<close>: the Python builtins the code calls (\<open>str(int)\<close>, \<open>format(x, '02d')\<close>,
    \<open>str.split(sep, 1)\<close>, \<open>str.endswith\<close>, \<open>os.path.join\<close>, \<open>os.path.basename\<close>,
    \<open>int(float)\<close>), the exception type \<open>py_exc\<close>, a reader of digit strings, and their
    lemmas (\<open>str\<close> is injective on naturals).
  \<^item> \<open>Collaborators\<close>: the libraries as the program sees them. The mixer is a record and
    a datatype \<open>mixer_cmd\<close> of calls executed by \<open>mixer_call\<close>, which logs every call
    so that order is observable; Qt's progress bar (\<open>pbar_set_range\<close>,
    \<open>pbar_set_value\<close>, its invariant \<open>pbar_ok\<close>), the slider's clamping, and PyQt's
    conversion \<open>sip_int\<close> of a Python \<open>int\<close> argument to a C \<open>int\<close> (a \<open>32 word\<close>),
    which raises \<open>OverflowError\<close> out of range. These are modelled from the libraries'
    documented behaviour, not from code of the repository.
  \<^item> \<open>Scanner\<close>: \<open>split_artist_title\<close> (lines 113--119), \<open>read_tags\<close> (the \<open>try\<close>
    body of \<open>get_song_info\<close>, lines 75--82), \<open>format_duration\<close>, \<open>format_size\<close>,
    \<open>get_song_info\<close> (lines 74--93) and \<open>scan_folder\<close>, the loop of \<open>open_folder\<close>
    (lines 101--111). What eyed3 and \<open>os.path.getsize\<close> report for a path is an input
    record \<open>file_info\<close>; \<open>getsize\<close> raises \<open>OSError\<close> for a path that cannot be
    stat'ed. \<open>entry_error\<close> and \<open>scan_error\<close> name the exception an entry and a listing
    make the scan raise; \<open>parse_duration\<close>, \<open>parse_size\<close> read the columns back and
    \<open>row_ok\<close> is the well-formedness of a row. \<open>spec_row\<close> is the row the spec (sections 3, 4.1) asks for,
    written from the spec alone, and the scan is proved to refine it.
  \<^item> \<open>Player\<close>: the window state as the record \<open>player\<close> (\<open>is_playing\<close>,
    \<open>current_song\<close>, \<open>song_duration\<close>, \<open>folder_path\<close>, \<open>current_position\<close>, the
    table, its selection, the progress bar, the slider, the mixer, the printed errors);
    \<open>init_player\<close> for \<open>__init__\<close>; one definition per slot, each returning
    \<open>py_exc + player\<close> (\<open>Inl\<close>: the slot raised and the program ends); the datatype
    \<open>event\<close> of what the event loop dispatches, \<open>handle\<close> for the signal connections
    and \<open>run\<close> for \<open>app.exec()\<close> over a list of events; the invariant \<open>player_ok\<close>.
    The disk is the record \<open>world\<close> (\<open>os.listdir\<close>, raising \<open>OSError\<close> as
    \<open>os_listdir\<close>, and the files); \<open>run_live\<close> pairs each event with the disk as it is
    when the event is dispatched, so that files may change between events.
  \<^item> \<open>Session\<close>: the spec's playback state machine (Stopped, Playing, Paused) as the
    inductive \<open>session_step\<close>, the abstraction \<open>session_of\<close>, the inductive set
    \<open>reachable\<close> of player states (any disk at each step), and the invariants of the
    reachable states: the session never returns to Stopped, the table is well-formed, and
    the flag agrees with a paused mixer.
  \<^item> \<open>Examples\<close>: the spec's example folder and variants, and one witness per property
    that has hypotheses; the witness of \<open>open_folder_Inl\<close> evaluates the spec's example.
  \<^item> This theory: the documentation of the development.

  \<^bold>\<open>What is proved.\<close> The invariant \<open>player_ok\<close> (valid selection, titles ending in
  \<open>.mp3\<close>, a current song whenever playing, a consistent progress bar, slider and
  volume in range) holds after any run from start-up, whatever the disk does between
  events; the session is never back in Stopped once left (the current song is never
  reset); every row of the table is well-formed in every reachable state (an
  \<open>.mp3\<close> path, a duration and a size that read back), and the flag is never set while
  the mixer is paused (the half of the spec's session invariant that holds; the other half
  fails, see below). Only two events can abort the
  program: opening a folder (\<open>OSError\<close>, \<open>UnboundLocalError\<close>) and a timer tick with a
  position beyond the C \<open>int\<close> range (\<open>OverflowError\<close>). The testable properties of
  the spec (section 8) are proved of the code where it meets them: the file-name split,
  empty tables for folders without MP3 files, Previous on the first row and Next on the
  last row, two Play presses, the volume scaling. The duration display round-trips
  through a reader of \<open>m:ss\<close> for every duration. The scan loop equals the spec's scan
  (the list of \<open>spec_row\<close> over the listing's MP3 entries) exactly when every MP3 entry
  has a size and readable tags, and otherwise raises the exception of the first entry that
  has not.

  \<^bold>\<open>Where the code departs from the spec\<close> (each a property below or in
  \<open>Player\<close>): \<open>get_song_info\<close> raises \<open>UnboundLocalError\<close> for every file whose tags
  cannot be read, and \<open>OSError\<close> for one that cannot be stat'ed, so opening the spec's
  example folder aborts the program instead of showing \<open>N/A\<close>; titles keep the
  \<open>.mp3\<close> extension; Next and Previous pause a playing song instead of playing the
  neighbour; a row whose title equals the current song is resumed, not loaded; a rejected
  file followed by a second Play sets \<open>is_playing\<close> with no file loaded; a file whose
  tags are removed after the scan, or whose duration reaches \<open>2^31\<close> seconds, plays
  while \<open>is_playing\<close> stays false; the timer's \<open>setValue\<close> is outside any \<open>try\<close>;
  after a folder without MP3 files is opened during playback, nothing in the window can
  pause the song any more.

  \<^bold>\<open>Choices and limits.\<close> Python integers are \<open>int\<close>; the C \<open>int\<close> arguments of
  Qt methods are \<open>32 word\<close> values read by \<open>sint\<close>; the volume is the real number
  \<open>v / 100\<close> (float rounding is not modelled, and is exact at 0 and 100). No loop needs
  fuel: the scan is structural recursion over the finite listing, and \<open>run\<close> and
  \<open>run_live\<close> over a finite list of events. Qt's event loop \<open>app.exec()\<close> is modelled
  by these runs over the events dispatched before the window closes; whether it ends
  depends only on the user closing the window, not on the program, so no termination
  property of it is stated.
  The disk is an input: fixed during \<open>run\<close>, chosen anew before each event in
  \<open>run_live\<close>; within one slot it does not change. The order of \<open>os.listdir\<close> is taken
  as given. Not modelled: the widget layout and window geometry (no behaviour), the Qt,
  eyed3 and pygame internals beyond the calls the program makes, the mixer's own playback
  thread (its only effect the program could see, the end of a track, is the event
  \<open>TrackEnded\<close>, and \<open>get_pos\<close> is the argument of \<open>TimerTick\<close>).
\<close>

end
